theory Spec2Isabelle
  imports Complex_Main "HOL-Library.Word" "HOL-Library.Monad_Syntax"
begin

section \<open>Values: C floats with the undefined sentinel\<close>

text \<open>
  \<^verbatim>\<open>CSSLayout.c\<close> computes with C \<^verbatim>\<open>float\<close>s and uses NaN as the value
  \<^verbatim>\<open>CSSUndefined\<close>. A value is modelled as either \<open>NaN\<close> or a real number: rounding,
  infinities and the sign of zero are not modelled. The operators follow IEEE 754 on
  NaN: arithmetic with a NaN operand is NaN, every ordered comparison with a NaN
  operand is false, \<^verbatim>\<open>!=\<close> with a NaN operand is true, and \<^verbatim>\<open>fmaxf\<close>/\<^verbatim>\<open>fminf\<close> return
  the other operand when one is NaN. A division by zero (an infinity or NaN in C) is
  NaN here.
\<close>

datatype cfloat = NaN | Finite real

instantiation cfloat :: "{zero,plus,minus,uminus,times,inverse,ord}"
begin

definition zero_cfloat :: cfloat where
  "zero_cfloat = Finite 0"

fun plus_cfloat :: "cfloat \<Rightarrow> cfloat \<Rightarrow> cfloat" where
  "plus_cfloat (Finite x) (Finite y) = Finite (x + y)"
| "plus_cfloat _ _ = NaN"

fun minus_cfloat :: "cfloat \<Rightarrow> cfloat \<Rightarrow> cfloat" where
  "minus_cfloat (Finite x) (Finite y) = Finite (x - y)"
| "minus_cfloat _ _ = NaN"

fun uminus_cfloat :: "cfloat \<Rightarrow> cfloat" where
  "uminus_cfloat (Finite x) = Finite (- x)"
| "uminus_cfloat NaN = NaN"

fun times_cfloat :: "cfloat \<Rightarrow> cfloat \<Rightarrow> cfloat" where
  "times_cfloat (Finite x) (Finite y) = Finite (x * y)"
| "times_cfloat _ _ = NaN"

fun inverse_cfloat :: "cfloat \<Rightarrow> cfloat" where
  "inverse_cfloat (Finite x) = (if x = 0 then NaN else Finite (inverse x))"
| "inverse_cfloat NaN = NaN"

fun divide_cfloat :: "cfloat \<Rightarrow> cfloat \<Rightarrow> cfloat" where
  "divide_cfloat (Finite x) (Finite y) = (if y = 0 then NaN else Finite (x / y))"
| "divide_cfloat _ _ = NaN"

fun less_cfloat :: "cfloat \<Rightarrow> cfloat \<Rightarrow> bool" where
  "less_cfloat (Finite x) (Finite y) = (x < y)"
| "less_cfloat _ _ = False"

fun less_eq_cfloat :: "cfloat \<Rightarrow> cfloat \<Rightarrow> bool" where
  "less_eq_cfloat (Finite x) (Finite y) = (x \<le> y)"
| "less_eq_cfloat _ _ = False"

instance ..

end

text \<open>C's \<^verbatim>\<open>a != b\<close> on floats.\<close>

fun fne :: "cfloat \<Rightarrow> cfloat \<Rightarrow> bool" where
  "fne (Finite x) (Finite y) = (x \<noteq> y)"
| "fne _ _ = True"

fun fmaxf :: "cfloat \<Rightarrow> cfloat \<Rightarrow> cfloat" where
  "fmaxf NaN b = b"
| "fmaxf a NaN = a"
| "fmaxf (Finite x) (Finite y) = Finite (max x y)"

fun fminf :: "cfloat \<Rightarrow> cfloat \<Rightarrow> cfloat" where
  "fminf NaN b = b"
| "fminf a NaN = a"
| "fminf (Finite x) (Finite y) = Finite (min x y)"

fun fabs :: "cfloat \<Rightarrow> cfloat" where
  "fabs (Finite x) = Finite \<bar>x\<bar>"
| "fabs NaN = NaN"

definition CSSUndefined :: cfloat where
  "CSSUndefined = NaN"

fun CSSValueIsUndefined :: "cfloat \<Rightarrow> bool" where
  "CSSValueIsUndefined NaN = True"
| "CSSValueIsUndefined (Finite x) = False"

definition eq :: "cfloat \<Rightarrow> cfloat \<Rightarrow> bool" where
  "eq a b =
     (if CSSValueIsUndefined a then CSSValueIsUndefined b
      else fabs (a - b) < Finite (1 / 10000))"

section \<open>Enumerations of the header\<close>

text \<open>
  Modelled from the spec: the enumerations are declared in \<^verbatim>\<open>CSSLayout.h\<close>, which is
  not among the sources. The constructors are listed in the order of the spec's data
  model, so that the first constructor is the value 0 that \<^verbatim>\<open>calloc\<close> leaves in a
  fresh node.
\<close>

datatype CSSDirection = CSSDirectionInherit | CSSDirectionLTR | CSSDirectionRTL

datatype CSSFlexDirection =
  CSSFlexDirectionColumn | CSSFlexDirectionColumnReverse
| CSSFlexDirectionRow | CSSFlexDirectionRowReverse

datatype CSSJustify =
  CSSJustifyFlexStart | CSSJustifyCenter | CSSJustifyFlexEnd
| CSSJustifySpaceBetween | CSSJustifySpaceAround

datatype CSSAlign =
  CSSAlignAuto | CSSAlignFlexStart | CSSAlignCenter | CSSAlignFlexEnd | CSSAlignStretch

datatype CSSPositionType = CSSPositionTypeRelative | CSSPositionTypeAbsolute

datatype CSSWrapType = CSSWrapTypeNoWrap | CSSWrapTypeWrap

datatype CSSOverflow = CSSOverflowVisible | CSSOverflowHidden | CSSOverflowScroll

datatype CSSMeasureMode =
  CSSMeasureModeUndefined | CSSMeasureModeExactly | CSSMeasureModeAtMost

datatype CSSEdge =
  CSSEdgeLeft | CSSEdgeTop | CSSEdgeRight | CSSEdgeBottom
| CSSEdgeStart | CSSEdgeEnd | CSSEdgeHorizontal | CSSEdgeVertical | CSSEdgeAll

datatype CSSDimension = CSSDimensionWidth | CSSDimensionHeight

text \<open>
  Modelled from the spec: the integer value of a flex direction (its position in the
  enumeration), which C reads when a constant is used as a condition.
\<close>

fun CSSFlexDirection_value :: "CSSFlexDirection \<Rightarrow> int" where
  "CSSFlexDirection_value CSSFlexDirectionColumn = 0"
| "CSSFlexDirection_value CSSFlexDirectionColumnReverse = 1"
| "CSSFlexDirection_value CSSFlexDirectionRow = 2"
| "CSSFlexDirection_value CSSFlexDirectionRowReverse = 3"

record CSSSize =
  width :: cfloat
  height :: cfloat

text \<open>
  The measure callback \<^verbatim>\<open>CSSMeasureFunc\<close>; the \<^verbatim>\<open>context\<close> pointer it receives is part
  of the function value.
\<close>

type_synonym CSSMeasureFunc =
  "cfloat \<Rightarrow> CSSMeasureMode \<Rightarrow> cfloat \<Rightarrow> CSSMeasureMode \<Rightarrow> CSSSize"

section \<open>The node\<close>

text \<open>
  A measure mode field of a cache entry also holds \<^verbatim>\<open>(CSSMeasureMode) -1\<close>, which is no
  mode: \<open>None\<close>. Likewise \<^verbatim>\<open>lastParentDirection\<close> holds \<^verbatim>\<open>(CSSDirection) -1\<close>.
\<close>

record CSSCachedMeasurement =
  availableWidth :: cfloat
  availableHeight :: cfloat
  widthMeasureMode :: "CSSMeasureMode option"
  heightMeasureMode :: "CSSMeasureMode option"
  computedWidth :: cfloat
  computedHeight :: cfloat

definition CSS_MAX_CACHED_RESULT_COUNT :: nat where
  "CSS_MAX_CACHED_RESULT_COUNT = 16"

text \<open>
  Arrays indexed by an enumeration are functions on it. \<^verbatim>\<open>position[4]\<close> of the layout
  is indexed by the four physical edges only.
\<close>

record CSSLayout =
  position :: "CSSEdge \<Rightarrow> cfloat"
  dimensions :: "CSSDimension \<Rightarrow> cfloat"
  direction :: CSSDirection
  computedFlexBasis :: cfloat
  generationCount :: "32 word"
  lastParentDirection :: "CSSDirection option"
  nextCachedMeasurementsIndex :: nat
  cachedMeasurements :: "CSSCachedMeasurement list"
  measuredDimensions :: "CSSDimension \<Rightarrow> cfloat"
  cachedLayout :: CSSCachedMeasurement

record CSSStyle =
  direction :: CSSDirection
  flexDirection :: CSSFlexDirection
  justifyContent :: CSSJustify
  alignContent :: CSSAlign
  alignItems :: CSSAlign
  alignSelf :: CSSAlign
  positionType :: CSSPositionType
  flexWrap :: CSSWrapType
  overflow :: CSSOverflow
  flexGrow :: cfloat
  flexShrink :: cfloat
  flexBasis :: cfloat
  margin :: "CSSEdge \<Rightarrow> cfloat"
  position :: "CSSEdge \<Rightarrow> cfloat"
  padding :: "CSSEdge \<Rightarrow> cfloat"
  border :: "CSSEdge \<Rightarrow> cfloat"
  dimensions :: "CSSDimension \<Rightarrow> cfloat"
  minDimensions :: "CSSDimension \<Rightarrow> cfloat"
  maxDimensions :: "CSSDimension \<Rightarrow> cfloat"

text \<open>
  \<^verbatim>\<open>struct CSSNode\<close>. A node owns its children, so the tree is a datatype; a
  \<^verbatim>\<open>CSSNodeRef\<close> into a tree is the path of child indices from the root, and the
  \<^verbatim>\<open>parent\<close> pointer of the node at path \<open>p\<close> is the path \<open>butlast p\<close> (\<^verbatim>\<open>NULL\<close> for the
  root). The scratch pointer \<^verbatim>\<open>nextChild\<close> threads lists of children inside one call of
  \<^verbatim>\<open>layoutNodeImpl\<close>; these lists are lists of child indices below. \<^verbatim>\<open>print\<close> and
  \<^verbatim>\<open>context\<close> are left out. Where a parameter or a local variable of the source has
  the name of a field, it is written with a prime below.
\<close>

datatype CSSNode =
  CSSNode
    (style: CSSStyle)
    (layout: CSSLayout)
    (lineIndex: nat)
    (hasNewLayout: bool)
    (isTextNode: bool)
    (children: "CSSNode list")
    (isDirty: bool)
    (measure_fn: "CSSMeasureFunc option")

fun style_update :: "(CSSStyle \<Rightarrow> CSSStyle) \<Rightarrow> CSSNode \<Rightarrow> CSSNode" where
  "style_update f (CSSNode s l li h t cs d m) = CSSNode (f s) l li h t cs d m"

fun layout_update :: "(CSSLayout \<Rightarrow> CSSLayout) \<Rightarrow> CSSNode \<Rightarrow> CSSNode" where
  "layout_update f (CSSNode s l li h t cs d m) = CSSNode s (f l) li h t cs d m"

fun lineIndex_update :: "(nat \<Rightarrow> nat) \<Rightarrow> CSSNode \<Rightarrow> CSSNode" where
  "lineIndex_update f (CSSNode s l li h t cs d m) = CSSNode s l (f li) h t cs d m"

fun hasNewLayout_update :: "(bool \<Rightarrow> bool) \<Rightarrow> CSSNode \<Rightarrow> CSSNode" where
  "hasNewLayout_update f (CSSNode s l li h t cs d m) = CSSNode s l li (f h) t cs d m"

fun isTextNode_update :: "(bool \<Rightarrow> bool) \<Rightarrow> CSSNode \<Rightarrow> CSSNode" where
  "isTextNode_update f (CSSNode s l li h t cs d m) = CSSNode s l li h (f t) cs d m"

fun children_update :: "(CSSNode list \<Rightarrow> CSSNode list) \<Rightarrow> CSSNode \<Rightarrow> CSSNode" where
  "children_update f (CSSNode s l li h t cs d m) = CSSNode s l li h t (f cs) d m"

fun isDirty_update :: "(bool \<Rightarrow> bool) \<Rightarrow> CSSNode \<Rightarrow> CSSNode" where
  "isDirty_update f (CSSNode s l li h t cs d m) = CSSNode s l li h t cs (f d) m"

fun measure_fn_update ::
  "(CSSMeasureFunc option \<Rightarrow> CSSMeasureFunc option) \<Rightarrow> CSSNode \<Rightarrow> CSSNode" where
  "measure_fn_update f (CSSNode s l li h t cs d m) = CSSNode s l li h t cs d (f m)"

section \<open>Edges and axes\<close>

text \<open>
  \<^verbatim>\<open>computedEdgeValue\<close> starts with
  \<^verbatim>\<open>CSS_ASSERT(edge <= CSSEdgeEnd, ...)\<close>. The assertion is the predicate
  \<open>computedEdgeValue_assert\<close>; the layout code only passes the four physical edges and
  \<^verbatim>\<open>CSSEdgeStart\<close>/\<^verbatim>\<open>CSSEdgeEnd\<close>, for which it holds, and the public getters check it.
\<close>

fun computedEdgeValue_assert :: "CSSEdge \<Rightarrow> bool" where
  "computedEdgeValue_assert CSSEdgeHorizontal = False"
| "computedEdgeValue_assert CSSEdgeVertical = False"
| "computedEdgeValue_assert CSSEdgeAll = False"
| "computedEdgeValue_assert _ = True"

definition computedEdgeValue :: "(CSSEdge \<Rightarrow> cfloat) \<Rightarrow> CSSEdge \<Rightarrow> cfloat \<Rightarrow> cfloat" where
  "computedEdgeValue edges edge defaultValue =
     (if \<not> CSSValueIsUndefined (edges edge) then edges edge
      else if (edge = CSSEdgeTop \<or> edge = CSSEdgeBottom) \<and>
              \<not> CSSValueIsUndefined (edges CSSEdgeVertical) then edges CSSEdgeVertical
      else if (edge = CSSEdgeLeft \<or> edge = CSSEdgeRight \<or> edge = CSSEdgeStart \<or> edge = CSSEdgeEnd) \<and>
              \<not> CSSValueIsUndefined (edges CSSEdgeHorizontal) then edges CSSEdgeHorizontal
      else if \<not> CSSValueIsUndefined (edges CSSEdgeAll) then edges CSSEdgeAll
      else if edge = CSSEdgeStart \<or> edge = CSSEdgeEnd then CSSUndefined
      else defaultValue)"

fun leading :: "CSSFlexDirection \<Rightarrow> CSSEdge" where
  "leading CSSFlexDirectionColumn = CSSEdgeTop"
| "leading CSSFlexDirectionColumnReverse = CSSEdgeBottom"
| "leading CSSFlexDirectionRow = CSSEdgeLeft"
| "leading CSSFlexDirectionRowReverse = CSSEdgeRight"

fun trailing :: "CSSFlexDirection \<Rightarrow> CSSEdge" where
  "trailing CSSFlexDirectionColumn = CSSEdgeBottom"
| "trailing CSSFlexDirectionColumnReverse = CSSEdgeTop"
| "trailing CSSFlexDirectionRow = CSSEdgeRight"
| "trailing CSSFlexDirectionRowReverse = CSSEdgeLeft"

fun pos :: "CSSFlexDirection \<Rightarrow> CSSEdge" where
  "pos CSSFlexDirectionColumn = CSSEdgeTop"
| "pos CSSFlexDirectionColumnReverse = CSSEdgeBottom"
| "pos CSSFlexDirectionRow = CSSEdgeLeft"
| "pos CSSFlexDirectionRowReverse = CSSEdgeRight"

text \<open>The table \<^verbatim>\<open>dim\<close> of the source.\<close>

fun dim_axis :: "CSSFlexDirection \<Rightarrow> CSSDimension" where
  "dim_axis CSSFlexDirectionColumn = CSSDimensionHeight"
| "dim_axis CSSFlexDirectionColumnReverse = CSSDimensionHeight"
| "dim_axis CSSFlexDirectionRow = CSSDimensionWidth"
| "dim_axis CSSFlexDirectionRowReverse = CSSDimensionWidth"

definition isRowDirection :: "CSSFlexDirection \<Rightarrow> bool" where
  "isRowDirection flexDirection' =
     (flexDirection' = CSSFlexDirectionRow \<or> flexDirection' = CSSFlexDirectionRowReverse)"

definition isColumnDirection :: "CSSFlexDirection \<Rightarrow> bool" where
  "isColumnDirection flexDirection' =
     (flexDirection' = CSSFlexDirectionColumn \<or> flexDirection' = CSSFlexDirectionColumnReverse)"

definition getLeadingMargin :: "CSSNode \<Rightarrow> CSSFlexDirection \<Rightarrow> cfloat" where
  "getLeadingMargin node axis =
     (if isRowDirection axis \<and> \<not> CSSValueIsUndefined (margin (style node) CSSEdgeStart)
      then margin (style node) CSSEdgeStart
      else computedEdgeValue (margin (style node)) (leading axis) 0)"

definition getTrailingMargin :: "CSSNode \<Rightarrow> CSSFlexDirection \<Rightarrow> cfloat" where
  "getTrailingMargin node axis =
     (if isRowDirection axis \<and> \<not> CSSValueIsUndefined (margin (style node) CSSEdgeEnd)
      then margin (style node) CSSEdgeEnd
      else computedEdgeValue (margin (style node)) (trailing axis) 0)"

definition getLeadingPadding :: "CSSNode \<Rightarrow> CSSFlexDirection \<Rightarrow> cfloat" where
  "getLeadingPadding node axis =
     (if isRowDirection axis \<and> \<not> CSSValueIsUndefined (padding (style node) CSSEdgeStart) \<and>
         0 \<le> padding (style node) CSSEdgeStart
      then padding (style node) CSSEdgeStart
      else if 0 \<le> computedEdgeValue (padding (style node)) (leading axis) 0
      then computedEdgeValue (padding (style node)) (leading axis) 0
      else 0)"

definition getTrailingPadding :: "CSSNode \<Rightarrow> CSSFlexDirection \<Rightarrow> cfloat" where
  "getTrailingPadding node axis =
     (if isRowDirection axis \<and> \<not> CSSValueIsUndefined (padding (style node) CSSEdgeEnd) \<and>
         0 \<le> padding (style node) CSSEdgeEnd
      then padding (style node) CSSEdgeEnd
      else if 0 \<le> computedEdgeValue (padding (style node)) (trailing axis) 0
      then computedEdgeValue (padding (style node)) (trailing axis) 0
      else 0)"

definition getLeadingBorder :: "CSSNode \<Rightarrow> CSSFlexDirection \<Rightarrow> cfloat" where
  "getLeadingBorder node axis =
     (if isRowDirection axis \<and> \<not> CSSValueIsUndefined (border (style node) CSSEdgeStart) \<and>
         0 \<le> border (style node) CSSEdgeStart
      then border (style node) CSSEdgeStart
      else if 0 \<le> computedEdgeValue (border (style node)) (leading axis) 0
      then computedEdgeValue (border (style node)) (leading axis) 0
      else 0)"

definition getTrailingBorder :: "CSSNode \<Rightarrow> CSSFlexDirection \<Rightarrow> cfloat" where
  "getTrailingBorder node axis =
     (if isRowDirection axis \<and> \<not> CSSValueIsUndefined (border (style node) CSSEdgeEnd) \<and>
         0 \<le> border (style node) CSSEdgeEnd
      then border (style node) CSSEdgeEnd
      else if 0 \<le> computedEdgeValue (border (style node)) (trailing axis) 0
      then computedEdgeValue (border (style node)) (trailing axis) 0
      else 0)"

definition getLeadingPaddingAndBorder :: "CSSNode \<Rightarrow> CSSFlexDirection \<Rightarrow> cfloat" where
  "getLeadingPaddingAndBorder node axis = getLeadingPadding node axis + getLeadingBorder node axis"

definition getTrailingPaddingAndBorder :: "CSSNode \<Rightarrow> CSSFlexDirection \<Rightarrow> cfloat" where
  "getTrailingPaddingAndBorder node axis =
     getTrailingPadding node axis + getTrailingBorder node axis"

definition getMarginAxis :: "CSSNode \<Rightarrow> CSSFlexDirection \<Rightarrow> cfloat" where
  "getMarginAxis node axis = getLeadingMargin node axis + getTrailingMargin node axis"

definition getPaddingAndBorderAxis :: "CSSNode \<Rightarrow> CSSFlexDirection \<Rightarrow> cfloat" where
  "getPaddingAndBorderAxis node axis =
     getLeadingPaddingAndBorder node axis + getTrailingPaddingAndBorder node axis"

definition getAlignItem :: "CSSNode \<Rightarrow> CSSNode \<Rightarrow> CSSAlign" where
  "getAlignItem node child =
     (if alignSelf (style child) \<noteq> CSSAlignAuto then alignSelf (style child)
      else alignItems (style node))"

text \<open>\<^verbatim>\<open>parentDirection > CSSDirectionInherit\<close> holds for LTR and RTL.\<close>

definition resolveDirection :: "CSSNode \<Rightarrow> CSSDirection \<Rightarrow> CSSDirection" where
  "resolveDirection node parentDirection =
     (if CSSStyle.direction (style node) = CSSDirectionInherit
      then (if parentDirection \<noteq> CSSDirectionInherit then parentDirection else CSSDirectionLTR)
      else CSSStyle.direction (style node))"

definition resolveAxis :: "CSSFlexDirection \<Rightarrow> CSSDirection \<Rightarrow> CSSFlexDirection" where
  "resolveAxis flexDirection' direction' =
     (if direction' = CSSDirectionRTL then
        (if flexDirection' = CSSFlexDirectionRow then CSSFlexDirectionRowReverse
         else if flexDirection' = CSSFlexDirectionRowReverse then CSSFlexDirectionRow
         else flexDirection')
      else flexDirection')"

definition getCrossFlexDirection :: "CSSFlexDirection \<Rightarrow> CSSDirection \<Rightarrow> CSSFlexDirection" where
  "getCrossFlexDirection flexDirection' direction' =
     (if isColumnDirection flexDirection' then resolveAxis CSSFlexDirectionRow direction'
      else CSSFlexDirectionColumn)"

definition isFlex :: "CSSNode \<Rightarrow> bool" where
  "isFlex node =
     (positionType (style node) = CSSPositionTypeRelative \<and>
      (fne (flexGrow (style node)) 0 \<or> fne (flexShrink (style node)) 0))"

definition getDimWithMargin :: "CSSNode \<Rightarrow> CSSFlexDirection \<Rightarrow> cfloat" where
  "getDimWithMargin node axis =
     measuredDimensions (layout node) (dim_axis axis) + getLeadingMargin node axis +
     getTrailingMargin node axis"

definition isStyleDimDefined :: "CSSNode \<Rightarrow> CSSFlexDirection \<Rightarrow> bool" where
  "isStyleDimDefined node axis =
     (let value = CSSStyle.dimensions (style node) (dim_axis axis)
      in \<not> CSSValueIsUndefined value \<and> 0 \<le> value)"

definition isLayoutDimDefined :: "CSSNode \<Rightarrow> CSSFlexDirection \<Rightarrow> bool" where
  "isLayoutDimDefined node axis =
     (let value = measuredDimensions (layout node) (dim_axis axis)
      in \<not> CSSValueIsUndefined value \<and> 0 \<le> value)"

definition isLeadingPosDefined :: "CSSNode \<Rightarrow> CSSFlexDirection \<Rightarrow> bool" where
  "isLeadingPosDefined node axis =
     ((isRowDirection axis \<and>
       \<not> CSSValueIsUndefined
           (computedEdgeValue (CSSStyle.position (style node)) CSSEdgeStart CSSUndefined)) \<or>
      \<not> CSSValueIsUndefined
          (computedEdgeValue (CSSStyle.position (style node)) (leading axis) CSSUndefined))"

definition isTrailingPosDefined :: "CSSNode \<Rightarrow> CSSFlexDirection \<Rightarrow> bool" where
  "isTrailingPosDefined node axis =
     ((isRowDirection axis \<and>
       \<not> CSSValueIsUndefined
           (computedEdgeValue (CSSStyle.position (style node)) CSSEdgeEnd CSSUndefined)) \<or>
      \<not> CSSValueIsUndefined
          (computedEdgeValue (CSSStyle.position (style node)) (trailing axis) CSSUndefined))"

definition getLeadingPosition :: "CSSNode \<Rightarrow> CSSFlexDirection \<Rightarrow> cfloat" where
  "getLeadingPosition node axis =
     (if isRowDirection axis \<and>
         \<not> CSSValueIsUndefined
             (computedEdgeValue (CSSStyle.position (style node)) CSSEdgeStart CSSUndefined)
      then computedEdgeValue (CSSStyle.position (style node)) CSSEdgeStart CSSUndefined
      else if \<not> CSSValueIsUndefined
                (computedEdgeValue (CSSStyle.position (style node)) (leading axis) CSSUndefined)
      then computedEdgeValue (CSSStyle.position (style node)) (leading axis) CSSUndefined
      else 0)"

definition getTrailingPosition :: "CSSNode \<Rightarrow> CSSFlexDirection \<Rightarrow> cfloat" where
  "getTrailingPosition node axis =
     (if isRowDirection axis \<and>
         \<not> CSSValueIsUndefined
             (computedEdgeValue (CSSStyle.position (style node)) CSSEdgeEnd CSSUndefined)
      then computedEdgeValue (CSSStyle.position (style node)) CSSEdgeEnd CSSUndefined
      else if \<not> CSSValueIsUndefined
                (computedEdgeValue (CSSStyle.position (style node)) (trailing axis) CSSUndefined)
      then computedEdgeValue (CSSStyle.position (style node)) (trailing axis) CSSUndefined
      else 0)"

definition boundAxisWithinMinAndMax :: "CSSNode \<Rightarrow> CSSFlexDirection \<Rightarrow> cfloat \<Rightarrow> cfloat" where
  "boundAxisWithinMinAndMax node axis value =
     (let min0 = CSSUndefined;
          max0 = CSSUndefined;
          (min1, max1) =
            (if isColumnDirection axis
             then (minDimensions (style node) CSSDimensionHeight,
                   maxDimensions (style node) CSSDimensionHeight)
             else if isRowDirection axis
             then (minDimensions (style node) CSSDimensionWidth,
                   maxDimensions (style node) CSSDimensionWidth)
             else (min0, max0));
          boundValue = value;
          boundValue =
            (if \<not> CSSValueIsUndefined max1 \<and> 0 \<le> max1 \<and> max1 < boundValue
             then max1 else boundValue);
          boundValue =
            (if \<not> CSSValueIsUndefined min1 \<and> 0 \<le> min1 \<and> boundValue < min1
             then min1 else boundValue)
      in boundValue)"

definition boundAxis :: "CSSNode \<Rightarrow> CSSFlexDirection \<Rightarrow> cfloat \<Rightarrow> cfloat" where
  "boundAxis node axis value =
     fmaxf (boundAxisWithinMinAndMax node axis value) (getPaddingAndBorderAxis node axis)"

text \<open>\<^verbatim>\<open>setTrailingPosition(node, child, axis)\<close> writes the child; the new child is returned.\<close>

definition setTrailingPosition :: "CSSNode \<Rightarrow> CSSNode \<Rightarrow> CSSFlexDirection \<Rightarrow> CSSNode" where
  "setTrailingPosition node child axis =
     (let size' = measuredDimensions (layout child) (dim_axis axis)
      in layout_update (\<lambda>l. l\<lparr>CSSLayout.position := (CSSLayout.position l)
           (trailing axis :=
              measuredDimensions (layout node) (dim_axis axis) - size' -
              CSSLayout.position l (pos axis))\<rparr>) child)"

definition getRelativePosition :: "CSSNode \<Rightarrow> CSSFlexDirection \<Rightarrow> cfloat" where
  "getRelativePosition node axis =
     (if isLeadingPosDefined node axis then getLeadingPosition node axis
      else - getTrailingPosition node axis)"

text \<open>The four assignments of \<^verbatim>\<open>setPosition\<close>, in the order of the source.\<close>

definition setPosition :: "CSSNode \<Rightarrow> CSSDirection \<Rightarrow> CSSNode" where
  "setPosition node direction' =
     (let mainAxis = resolveAxis (flexDirection (style node)) direction';
          crossAxis = getCrossFlexDirection mainAxis direction'
      in layout_update (\<lambda>l. l\<lparr>CSSLayout.position :=
           (CSSLayout.position l)
             (leading mainAxis :=
                getLeadingMargin node mainAxis + getRelativePosition node mainAxis,
              trailing mainAxis :=
                getTrailingMargin node mainAxis + getRelativePosition node mainAxis,
              leading crossAxis :=
                getLeadingMargin node crossAxis + getRelativePosition node crossAxis,
              trailing crossAxis :=
                getTrailingMargin node crossAxis + getRelativePosition node crossAxis)\<rparr>) node)"

section \<open>Creating nodes\<close>

text \<open>
  \<^verbatim>\<open>CSSNodeNew\<close> takes the node from \<^verbatim>\<open>calloc\<close>, so every field that \<^verbatim>\<open>CSSNodeInit\<close>
  does not write is zero: the first value of an enumeration, the float 0, \<^verbatim>\<open>false\<close>,
  \<^verbatim>\<open>NULL\<close>. The counter \<^verbatim>\<open>gNodeInstanceCount\<close> is not modelled.
\<close>

definition calloc_CSSCachedMeasurement :: CSSCachedMeasurement where
  "calloc_CSSCachedMeasurement =
     \<lparr>availableWidth = 0, availableHeight = 0,
      widthMeasureMode = Some CSSMeasureModeUndefined,
      heightMeasureMode = Some CSSMeasureModeUndefined,
      computedWidth = 0, computedHeight = 0\<rparr>"

definition calloc_CSSLayout :: CSSLayout where
  "calloc_CSSLayout =
     \<lparr>CSSLayout.position = (\<lambda>e. 0), CSSLayout.dimensions = (\<lambda>d. 0),
      CSSLayout.direction = CSSDirectionInherit, computedFlexBasis = 0,
      generationCount = 0, lastParentDirection = Some CSSDirectionInherit,
      nextCachedMeasurementsIndex = 0,
      cachedMeasurements = replicate CSS_MAX_CACHED_RESULT_COUNT calloc_CSSCachedMeasurement,
      measuredDimensions = (\<lambda>d. 0), cachedLayout = calloc_CSSCachedMeasurement\<rparr>"

definition calloc_CSSStyle :: CSSStyle where
  "calloc_CSSStyle =
     \<lparr>CSSStyle.direction = CSSDirectionInherit, flexDirection = CSSFlexDirectionColumn,
      justifyContent = CSSJustifyFlexStart, alignContent = CSSAlignAuto,
      alignItems = CSSAlignAuto, alignSelf = CSSAlignAuto,
      positionType = CSSPositionTypeRelative, flexWrap = CSSWrapTypeNoWrap,
      overflow = CSSOverflowVisible, flexGrow = 0, flexShrink = 0, flexBasis = 0,
      margin = (\<lambda>e. 0), CSSStyle.position = (\<lambda>e. 0), padding = (\<lambda>e. 0),
      border = (\<lambda>e. 0), CSSStyle.dimensions = (\<lambda>d. 0), minDimensions = (\<lambda>d. 0),
      maxDimensions = (\<lambda>d. 0)\<rparr>"

definition calloc_CSSNode :: CSSNode where
  "calloc_CSSNode = CSSNode calloc_CSSStyle calloc_CSSLayout 0 False False [] False None"

text \<open>
  \<^verbatim>\<open>CSSNodeInit\<close>. \<^verbatim>\<open>node->parent = NULL\<close> makes the node a root, which a tree value is;
  \<^verbatim>\<open>CSSNodeListNew(4)\<close> is the empty list of children. The loop over the edges writes
  every entry of the four edge arrays.
\<close>

definition CSSNodeInit :: "CSSNode \<Rightarrow> CSSNode" where
  "CSSNodeInit node =
     (let node = children_update (\<lambda>_. []) node;
          node = hasNewLayout_update (\<lambda>_. True) node;
          node = isDirty_update (\<lambda>_. False) node;
          node = style_update (\<lambda>s. s\<lparr>flexGrow := 0, flexShrink := 0, flexBasis := CSSUndefined\<rparr>) node;
          node = style_update (\<lambda>s. s\<lparr>alignItems := CSSAlignStretch,
                                       alignContent := CSSAlignFlexStart\<rparr>) node;
          node = style_update (\<lambda>s. s\<lparr>CSSStyle.direction := CSSDirectionInherit,
                                       flexDirection := CSSFlexDirectionColumn\<rparr>) node;
          node = style_update (\<lambda>s. s\<lparr>overflow := CSSOverflowVisible\<rparr>) node;
          node = style_update (\<lambda>s. s\<lparr>CSSStyle.dimensions := (CSSStyle.dimensions s)
                   (CSSDimensionWidth := CSSUndefined, CSSDimensionHeight := CSSUndefined)\<rparr>) node;
          node = style_update (\<lambda>s. s\<lparr>minDimensions := (minDimensions s)
                   (CSSDimensionWidth := CSSUndefined, CSSDimensionHeight := CSSUndefined)\<rparr>) node;
          node = style_update (\<lambda>s. s\<lparr>maxDimensions := (maxDimensions s)
                   (CSSDimensionWidth := CSSUndefined, CSSDimensionHeight := CSSUndefined)\<rparr>) node;
          node = style_update (\<lambda>s. s\<lparr>CSSStyle.position := (\<lambda>edge. CSSUndefined),
                                       margin := (\<lambda>edge. CSSUndefined),
                                       padding := (\<lambda>edge. CSSUndefined),
                                       border := (\<lambda>edge. CSSUndefined)\<rparr>) node;
          node = layout_update (\<lambda>l. l\<lparr>CSSLayout.dimensions := (CSSLayout.dimensions l)
                   (CSSDimensionWidth := CSSUndefined, CSSDimensionHeight := CSSUndefined)\<rparr>) node;
          node = layout_update (\<lambda>l. l\<lparr>lastParentDirection := None,
                                         nextCachedMeasurementsIndex := 0,
                                         computedFlexBasis := CSSUndefined\<rparr>) node;
          node = layout_update (\<lambda>l. l\<lparr>measuredDimensions := (measuredDimensions l)
                   (CSSDimensionWidth := CSSUndefined, CSSDimensionHeight := CSSUndefined)\<rparr>) node;
          node = layout_update (\<lambda>l. l\<lparr>cachedLayout :=
                   (cachedLayout l)\<lparr>widthMeasureMode := None, heightMeasureMode := None\<rparr>\<rparr>) node
      in node)"

definition CSSNodeNew :: CSSNode where
  "CSSNodeNew = CSSNodeInit calloc_CSSNode"

section \<open>References into a tree\<close>

fun CSSNodeAt :: "CSSNode \<Rightarrow> nat list \<Rightarrow> CSSNode option" where
  "CSSNodeAt node [] = Some node"
| "CSSNodeAt node (i # p) =
     (if i < length (children node) then CSSNodeAt (children node ! i) p else None)"

fun updateAt :: "(CSSNode \<Rightarrow> CSSNode) \<Rightarrow> CSSNode \<Rightarrow> nat list \<Rightarrow> CSSNode" where
  "updateAt f node [] = f node"
| "updateAt f node (i # p) =
     (if i < length (children node)
      then children_update (\<lambda>cs. cs[i := updateAt f (cs ! i) p]) node
      else node)"

section \<open>Dirty marking\<close>

text \<open>
  \<^verbatim>\<open>_CSSNodeMarkDirty(node)\<close>, for the node at path \<open>p\<close> of the tree \<open>tree\<close>; the whole
  tree is returned. The recursive call on \<^verbatim>\<open>node->parent\<close> is the call on \<open>butlast p\<close>. A
  path that leads to no node stands for no pointer of the source; the tree is returned
  as it is.
\<close>

function underscore_CSSNodeMarkDirty :: "CSSNode \<Rightarrow> nat list \<Rightarrow> CSSNode" where
  "underscore_CSSNodeMarkDirty tree p =
     (case CSSNodeAt tree p of
        None \<Rightarrow> tree
      | Some node \<Rightarrow>
          if \<not> isDirty node then
            (let tree1 =
               updateAt (\<lambda>n. layout_update (\<lambda>l. l\<lparr>computedFlexBasis := CSSUndefined\<rparr>)
                               (isDirty_update (\<lambda>_. True) n)) tree p
             in if p \<noteq> [] then underscore_CSSNodeMarkDirty tree1 (butlast p) else tree1)
          else tree)"
  by pat_completeness auto
termination
  by (relation "Wellfounded.measure (\<lambda>(tree, p). length p)") auto

text \<open>
  Modelled from the spec: the child list (\<^verbatim>\<open>CSSNodeList.c\<close> is not among the sources) is
  an ordered sequence; \<^verbatim>\<open>CSSNodeListInsert\<close> puts the child at the index and
  \<^verbatim>\<open>CSSNodeListDelete\<close> takes it out. The child of \<^verbatim>\<open>CSSNodeInsertChild\<close> is a tree of its
  own, so the assertion \<^verbatim>\<open>child->parent == NULL\<close> holds; the child that
  \<^verbatim>\<open>CSSNodeRemoveChild\<close> removes is named by its index and is returned as a tree of its
  own.
\<close>

definition CSSNodeListInsert :: "CSSNode list \<Rightarrow> CSSNode \<Rightarrow> nat \<Rightarrow> CSSNode list" where
  "CSSNodeListInsert list node index = take index list @ node # drop index list"

definition CSSNodeListDelete :: "CSSNode list \<Rightarrow> nat \<Rightarrow> CSSNode list" where
  "CSSNodeListDelete list index = take index list @ drop (Suc index) list"

definition CSSNodeInsertChild :: "CSSNode \<Rightarrow> nat list \<Rightarrow> CSSNode \<Rightarrow> nat \<Rightarrow> CSSNode" where
  "CSSNodeInsertChild tree p child index =
     underscore_CSSNodeMarkDirty
       (updateAt (children_update (\<lambda>cs. CSSNodeListInsert cs child index)) tree p) p"

definition CSSNodeRemoveChild :: "CSSNode \<Rightarrow> nat list \<Rightarrow> nat \<Rightarrow> CSSNode \<times> CSSNode option" where
  "CSSNodeRemoveChild tree p index =
     (underscore_CSSNodeMarkDirty
        (updateAt (children_update (\<lambda>cs. CSSNodeListDelete cs index)) tree p) p,
      CSSNodeAt tree (p @ [index]))"

definition CSSNodeGetChild :: "CSSNode \<Rightarrow> nat \<Rightarrow> CSSNode option" where
  "CSSNodeGetChild node index =
     (if index < length (children node) then Some (children node ! index) else None)"

definition CSSNodeChildCount :: "CSSNode \<Rightarrow> nat" where
  "CSSNodeChildCount node = length (children node)"

text \<open>\<^verbatim>\<open>CSSNodeMarkDirty\<close>: \<open>None\<close> when the assertion fails.\<close>

definition CSSNodeMarkDirty :: "CSSNode \<Rightarrow> nat list \<Rightarrow> CSSNode option" where
  "CSSNodeMarkDirty tree p =
     (case CSSNodeAt tree p of
        None \<Rightarrow> None
      | Some node \<Rightarrow>
          if measure_fn node \<noteq> None \<or> 0 < CSSNodeChildCount node
          then Some (underscore_CSSNodeMarkDirty tree p)
          else None)"

definition CSSNodeIsDirty :: "CSSNode \<Rightarrow> bool" where
  "CSSNodeIsDirty node = isDirty node"

section \<open>Style setters and getters\<close>

text \<open>
  The setter that \<^verbatim>\<open>CSS_NODE_STYLE_PROPERTY_IMPL(type, name, paramName, instanceName)\<close>
  expands to, for the node at path \<open>p\<close>. The field is given by its selector and its update
  function, and \<open>ne\<close> is C's \<^verbatim>\<open>!=\<close> at the type of the field: \<open>(\<noteq>)\<close> for an enumeration,
  \<open>fne\<close> for a float.
\<close>

definition CSS_NODE_STYLE_PROPERTY_IMPL_Set ::
  "(CSSStyle \<Rightarrow> 'a) \<Rightarrow> (('a \<Rightarrow> 'a) \<Rightarrow> CSSStyle \<Rightarrow> CSSStyle) \<Rightarrow> ('a \<Rightarrow> 'a \<Rightarrow> bool) \<Rightarrow>
   CSSNode \<Rightarrow> nat list \<Rightarrow> 'a \<Rightarrow> CSSNode" where
  "CSS_NODE_STYLE_PROPERTY_IMPL_Set instanceName instanceName_update ne tree p paramName =
     (case CSSNodeAt tree p of
        None \<Rightarrow> tree
      | Some node \<Rightarrow>
          if ne (instanceName (style node)) paramName then
            underscore_CSSNodeMarkDirty
              (updateAt (style_update (instanceName_update (\<lambda>_. paramName))) tree p) p
          else tree)"

text \<open>The setter of \<^verbatim>\<open>CSS_NODE_STYLE_EDGE_PROPERTY_IMPL\<close>, on one entry of an edge array.\<close>

definition CSS_NODE_STYLE_EDGE_PROPERTY_IMPL_Set ::
  "(CSSStyle \<Rightarrow> CSSEdge \<Rightarrow> cfloat) \<Rightarrow>
   (((CSSEdge \<Rightarrow> cfloat) \<Rightarrow> (CSSEdge \<Rightarrow> cfloat)) \<Rightarrow> CSSStyle \<Rightarrow> CSSStyle) \<Rightarrow>
   CSSNode \<Rightarrow> nat list \<Rightarrow> CSSEdge \<Rightarrow> cfloat \<Rightarrow> CSSNode" where
  "CSS_NODE_STYLE_EDGE_PROPERTY_IMPL_Set instanceName instanceName_update tree p edge paramName =
     (case CSSNodeAt tree p of
        None \<Rightarrow> tree
      | Some node \<Rightarrow>
          if fne (instanceName (style node) edge) paramName then
            underscore_CSSNodeMarkDirty
              (updateAt (style_update (instanceName_update (\<lambda>a. a(edge := paramName)))) tree p) p
          else tree)"

text \<open>
  The edge getter resolves the shorthands; \<open>None\<close> when the assertion of
  \<^verbatim>\<open>computedEdgeValue\<close> fails.
\<close>

definition CSS_NODE_STYLE_EDGE_PROPERTY_IMPL_Get ::
  "(CSSStyle \<Rightarrow> CSSEdge \<Rightarrow> cfloat) \<Rightarrow> cfloat \<Rightarrow> CSSNode \<Rightarrow> CSSEdge \<Rightarrow> cfloat option" where
  "CSS_NODE_STYLE_EDGE_PROPERTY_IMPL_Get instanceName defaultValue node edge =
     (if computedEdgeValue_assert edge
      then Some (computedEdgeValue (instanceName (style node)) edge defaultValue)
      else None)"

definition CSSNodeStyleSetDirection :: "CSSNode \<Rightarrow> nat list \<Rightarrow> CSSDirection \<Rightarrow> CSSNode" where
  "CSSNodeStyleSetDirection =
     CSS_NODE_STYLE_PROPERTY_IMPL_Set CSSStyle.direction CSSStyle.direction_update (\<noteq>)"

definition CSSNodeStyleSetFlexDirection :: "CSSNode \<Rightarrow> nat list \<Rightarrow> CSSFlexDirection \<Rightarrow> CSSNode" where
  "CSSNodeStyleSetFlexDirection =
     CSS_NODE_STYLE_PROPERTY_IMPL_Set flexDirection flexDirection_update (\<noteq>)"

definition CSSNodeStyleSetJustifyContent :: "CSSNode \<Rightarrow> nat list \<Rightarrow> CSSJustify \<Rightarrow> CSSNode" where
  "CSSNodeStyleSetJustifyContent =
     CSS_NODE_STYLE_PROPERTY_IMPL_Set justifyContent justifyContent_update (\<noteq>)"

definition CSSNodeStyleSetAlignContent :: "CSSNode \<Rightarrow> nat list \<Rightarrow> CSSAlign \<Rightarrow> CSSNode" where
  "CSSNodeStyleSetAlignContent =
     CSS_NODE_STYLE_PROPERTY_IMPL_Set alignContent alignContent_update (\<noteq>)"

definition CSSNodeStyleSetAlignItems :: "CSSNode \<Rightarrow> nat list \<Rightarrow> CSSAlign \<Rightarrow> CSSNode" where
  "CSSNodeStyleSetAlignItems =
     CSS_NODE_STYLE_PROPERTY_IMPL_Set alignItems alignItems_update (\<noteq>)"

definition CSSNodeStyleSetAlignSelf :: "CSSNode \<Rightarrow> nat list \<Rightarrow> CSSAlign \<Rightarrow> CSSNode" where
  "CSSNodeStyleSetAlignSelf =
     CSS_NODE_STYLE_PROPERTY_IMPL_Set alignSelf alignSelf_update (\<noteq>)"

definition CSSNodeStyleSetPositionType :: "CSSNode \<Rightarrow> nat list \<Rightarrow> CSSPositionType \<Rightarrow> CSSNode" where
  "CSSNodeStyleSetPositionType =
     CSS_NODE_STYLE_PROPERTY_IMPL_Set positionType positionType_update (\<noteq>)"

definition CSSNodeStyleSetFlexWrap :: "CSSNode \<Rightarrow> nat list \<Rightarrow> CSSWrapType \<Rightarrow> CSSNode" where
  "CSSNodeStyleSetFlexWrap =
     CSS_NODE_STYLE_PROPERTY_IMPL_Set flexWrap flexWrap_update (\<noteq>)"

definition CSSNodeStyleSetOverflow :: "CSSNode \<Rightarrow> nat list \<Rightarrow> CSSOverflow \<Rightarrow> CSSNode" where
  "CSSNodeStyleSetOverflow =
     CSS_NODE_STYLE_PROPERTY_IMPL_Set overflow overflow_update (\<noteq>)"



definition CSSNodeStyleSetFlexBasis :: "CSSNode \<Rightarrow> nat list \<Rightarrow> cfloat \<Rightarrow> CSSNode" where
  "CSSNodeStyleSetFlexBasis = CSS_NODE_STYLE_PROPERTY_IMPL_Set flexBasis flexBasis_update fne"

definition CSSNodeStyleSetPosition :: "CSSNode \<Rightarrow> nat list \<Rightarrow> CSSEdge \<Rightarrow> cfloat \<Rightarrow> CSSNode" where
  "CSSNodeStyleSetPosition =
     CSS_NODE_STYLE_EDGE_PROPERTY_IMPL_Set CSSStyle.position CSSStyle.position_update"

definition CSSNodeStyleSetMargin :: "CSSNode \<Rightarrow> nat list \<Rightarrow> CSSEdge \<Rightarrow> cfloat \<Rightarrow> CSSNode" where
  "CSSNodeStyleSetMargin = CSS_NODE_STYLE_EDGE_PROPERTY_IMPL_Set margin margin_update"

definition CSSNodeStyleSetPadding :: "CSSNode \<Rightarrow> nat list \<Rightarrow> CSSEdge \<Rightarrow> cfloat \<Rightarrow> CSSNode" where
  "CSSNodeStyleSetPadding = CSS_NODE_STYLE_EDGE_PROPERTY_IMPL_Set padding padding_update"

definition CSSNodeStyleSetBorder :: "CSSNode \<Rightarrow> nat list \<Rightarrow> CSSEdge \<Rightarrow> cfloat \<Rightarrow> CSSNode" where
  "CSSNodeStyleSetBorder = CSS_NODE_STYLE_EDGE_PROPERTY_IMPL_Set border border_update"

text \<open>
  The six setters on \<^verbatim>\<open>dimensions[...]\<close>, \<^verbatim>\<open>minDimensions[...]\<close> and \<^verbatim>\<open>maxDimensions[...]\<close>:
  the field is one entry of the array.
\<close>

definition CSSNodeStyleSetWidth :: "CSSNode \<Rightarrow> nat list \<Rightarrow> cfloat \<Rightarrow> CSSNode" where
  "CSSNodeStyleSetWidth =
     CSS_NODE_STYLE_PROPERTY_IMPL_Set (\<lambda>s. CSSStyle.dimensions s CSSDimensionWidth)
       (\<lambda>f. CSSStyle.dimensions_update (\<lambda>a. a(CSSDimensionWidth := f (a CSSDimensionWidth)))) fne"

definition CSSNodeStyleSetHeight :: "CSSNode \<Rightarrow> nat list \<Rightarrow> cfloat \<Rightarrow> CSSNode" where
  "CSSNodeStyleSetHeight =
     CSS_NODE_STYLE_PROPERTY_IMPL_Set (\<lambda>s. CSSStyle.dimensions s CSSDimensionHeight)
       (\<lambda>f. CSSStyle.dimensions_update (\<lambda>a. a(CSSDimensionHeight := f (a CSSDimensionHeight)))) fne"

definition CSSNodeStyleSetMinWidth :: "CSSNode \<Rightarrow> nat list \<Rightarrow> cfloat \<Rightarrow> CSSNode" where
  "CSSNodeStyleSetMinWidth =
     CSS_NODE_STYLE_PROPERTY_IMPL_Set (\<lambda>s. minDimensions s CSSDimensionWidth)
       (\<lambda>f. minDimensions_update (\<lambda>a. a(CSSDimensionWidth := f (a CSSDimensionWidth)))) fne"

definition CSSNodeStyleSetMinHeight :: "CSSNode \<Rightarrow> nat list \<Rightarrow> cfloat \<Rightarrow> CSSNode" where
  "CSSNodeStyleSetMinHeight =
     CSS_NODE_STYLE_PROPERTY_IMPL_Set (\<lambda>s. minDimensions s CSSDimensionHeight)
       (\<lambda>f. minDimensions_update (\<lambda>a. a(CSSDimensionHeight := f (a CSSDimensionHeight)))) fne"

definition CSSNodeStyleSetMaxWidth :: "CSSNode \<Rightarrow> nat list \<Rightarrow> cfloat \<Rightarrow> CSSNode" where
  "CSSNodeStyleSetMaxWidth =
     CSS_NODE_STYLE_PROPERTY_IMPL_Set (\<lambda>s. maxDimensions s CSSDimensionWidth)
       (\<lambda>f. maxDimensions_update (\<lambda>a. a(CSSDimensionWidth := f (a CSSDimensionWidth)))) fne"

definition CSSNodeStyleSetMaxHeight :: "CSSNode \<Rightarrow> nat list \<Rightarrow> cfloat \<Rightarrow> CSSNode" where
  "CSSNodeStyleSetMaxHeight =
     CSS_NODE_STYLE_PROPERTY_IMPL_Set (\<lambda>s. maxDimensions s CSSDimensionHeight)
       (\<lambda>f. maxDimensions_update (\<lambda>a. a(CSSDimensionHeight := f (a CSSDimensionHeight)))) fne"

definition CSSNodeStyleGetFlexGrow :: "CSSNode \<Rightarrow> cfloat" where
  "CSSNodeStyleGetFlexGrow node = flexGrow (style node)"

definition CSSNodeStyleGetFlexShrink :: "CSSNode \<Rightarrow> cfloat" where
  "CSSNodeStyleGetFlexShrink node = flexShrink (style node)"

definition CSSNodeStyleGetFlexBasis :: "CSSNode \<Rightarrow> cfloat" where
  "CSSNodeStyleGetFlexBasis node = flexBasis (style node)"

definition CSSNodeStyleGetMargin :: "CSSNode \<Rightarrow> CSSEdge \<Rightarrow> cfloat option" where
  "CSSNodeStyleGetMargin = CSS_NODE_STYLE_EDGE_PROPERTY_IMPL_Get margin 0"

definition CSSNodeStyleGetPadding :: "CSSNode \<Rightarrow> CSSEdge \<Rightarrow> cfloat option" where
  "CSSNodeStyleGetPadding = CSS_NODE_STYLE_EDGE_PROPERTY_IMPL_Get padding 0"

definition CSSNodeStyleGetBorder :: "CSSNode \<Rightarrow> CSSEdge \<Rightarrow> cfloat option" where
  "CSSNodeStyleGetBorder = CSS_NODE_STYLE_EDGE_PROPERTY_IMPL_Get border 0"

definition CSSNodeStyleGetPosition :: "CSSNode \<Rightarrow> CSSEdge \<Rightarrow> cfloat option" where
  "CSSNodeStyleGetPosition = CSS_NODE_STYLE_EDGE_PROPERTY_IMPL_Get CSSStyle.position CSSUndefined"

text \<open>The layout getters of \<^verbatim>\<open>CSS_NODE_LAYOUT_PROPERTY_IMPL\<close>.\<close>

definition CSSNodeLayoutGetLeft :: "CSSNode \<Rightarrow> cfloat" where
  "CSSNodeLayoutGetLeft node = CSSLayout.position (layout node) CSSEdgeLeft"

definition CSSNodeLayoutGetTop :: "CSSNode \<Rightarrow> cfloat" where
  "CSSNodeLayoutGetTop node = CSSLayout.position (layout node) CSSEdgeTop"

definition CSSNodeLayoutGetRight :: "CSSNode \<Rightarrow> cfloat" where
  "CSSNodeLayoutGetRight node = CSSLayout.position (layout node) CSSEdgeRight"

definition CSSNodeLayoutGetBottom :: "CSSNode \<Rightarrow> cfloat" where
  "CSSNodeLayoutGetBottom node = CSSLayout.position (layout node) CSSEdgeBottom"

definition CSSNodeLayoutGetWidth :: "CSSNode \<Rightarrow> cfloat" where
  "CSSNodeLayoutGetWidth node = CSSLayout.dimensions (layout node) CSSDimensionWidth"

definition CSSNodeLayoutGetHeight :: "CSSNode \<Rightarrow> cfloat" where
  "CSSNodeLayoutGetHeight node = CSSLayout.dimensions (layout node) CSSDimensionHeight"

definition CSSNodeLayoutGetDirection :: "CSSNode \<Rightarrow> CSSDirection" where
  "CSSNodeLayoutGetDirection node = CSSLayout.direction (layout node)"

text \<open>\<^verbatim>\<open>CSSNodeSetMeasureFunc\<close> and \<^verbatim>\<open>CSSNodeSetIsTextnode\<close> write the field and nothing else.\<close>

definition CSSNodeSetMeasureFunc :: "CSSNode \<Rightarrow> CSSMeasureFunc option \<Rightarrow> CSSNode" where
  "CSSNodeSetMeasureFunc node measureFunc = measure_fn_update (\<lambda>_. measureFunc) node"

definition CSSNodeSetIsTextnode :: "CSSNode \<Rightarrow> bool \<Rightarrow> CSSNode" where
  "CSSNodeSetIsTextnode node isTextNode' = isTextNode_update (\<lambda>_. isTextNode') node"



section \<open>The measurement cache\<close>

text \<open>
  \<^verbatim>\<open>canUseCachedMeasurement\<close> receives the cache entry by value
  (\<^verbatim>\<open>CSSCachedMeasurement cachedLayout\<close>), so its assignment to
  \<^verbatim>\<open>cachedLayout.computedHeight\<close> writes the callee's copy. The function returns the result
  of the source together with the final value of that copy.
\<close>

definition canUseCachedMeasurement ::
  "bool \<Rightarrow> cfloat \<Rightarrow> cfloat \<Rightarrow> cfloat \<Rightarrow> cfloat \<Rightarrow> CSSMeasureMode \<Rightarrow> CSSMeasureMode \<Rightarrow>
   CSSCachedMeasurement \<Rightarrow> bool \<times> CSSCachedMeasurement" where
  "canUseCachedMeasurement isTextNode' availableWidth' availableHeight' marginRow marginColumn
     widthMeasureMode' heightMeasureMode' cachedLayout' =
     (let isHeightSame =
            ((heightMeasureMode cachedLayout' = Some CSSMeasureModeUndefined \<and>
              heightMeasureMode' = CSSMeasureModeUndefined) \<or>
             (heightMeasureMode cachedLayout' = Some heightMeasureMode' \<and>
              eq (availableHeight cachedLayout') availableHeight'));
          isWidthSame =
            ((widthMeasureMode cachedLayout' = Some CSSMeasureModeUndefined \<and>
              widthMeasureMode' = CSSMeasureModeUndefined) \<or>
             (widthMeasureMode cachedLayout' = Some widthMeasureMode' \<and>
              eq (availableWidth cachedLayout') availableWidth'))
      in if isHeightSame \<and> isWidthSame then (True, cachedLayout')
         else
          (let isHeightValid =
                 ((heightMeasureMode cachedLayout' = Some CSSMeasureModeUndefined \<and>
                   heightMeasureMode' = CSSMeasureModeAtMost \<and>
                   computedHeight cachedLayout' \<le> availableHeight' - marginColumn) \<or>
                  (heightMeasureMode' = CSSMeasureModeExactly \<and>
                   eq (computedHeight cachedLayout') (availableHeight' - marginColumn)))
           in if isWidthSame \<and> isHeightValid then (True, cachedLayout')
              else
               (let isWidthValid =
                      ((widthMeasureMode cachedLayout' = Some CSSMeasureModeUndefined \<and>
                        widthMeasureMode' = CSSMeasureModeAtMost \<and>
                        computedWidth cachedLayout' \<le> availableWidth' - marginRow) \<or>
                       (widthMeasureMode' = CSSMeasureModeExactly \<and>
                        eq (computedWidth cachedLayout') (availableWidth' - marginRow)))
                in if isHeightSame \<and> isWidthValid then (True, cachedLayout')
                   else if isHeightValid \<and> isWidthValid then (True, cachedLayout')
                   else if isTextNode' then
                     (if isWidthSame then
                        (if heightMeasureMode' = CSSMeasureModeUndefined then (True, cachedLayout')
                         else if heightMeasureMode' = CSSMeasureModeAtMost \<and>
                                 computedHeight cachedLayout' < availableHeight' - marginColumn
                         then (True, cachedLayout')
                         else (True, cachedLayout'\<lparr>computedHeight := availableHeight' - marginColumn\<rparr>))
                      else if widthMeasureMode cachedLayout' = Some CSSMeasureModeUndefined \<and>
                              (widthMeasureMode' = CSSMeasureModeUndefined \<or>
                               (widthMeasureMode' = CSSMeasureModeAtMost \<and>
                                computedWidth cachedLayout' \<le> availableWidth' - marginRow))
                      then (True, cachedLayout')
                      else (False, cachedLayout'))
                   else (False, cachedLayout'))))"

text \<open>
  The words of the spec for the hit predicate of a node with a measure function, to be
  compared with \<open>canUseCachedMeasurement\<close>: tolerance equality of values, and for one axis
  the predicates \<^emph>\<open>same\<close> and \<^emph>\<open>valid\<close>.
\<close>

definition spec_tolerance_equal :: "cfloat \<Rightarrow> cfloat \<Rightarrow> bool" where
  "spec_tolerance_equal a b =
     (case (a, b) of
        (NaN, NaN) \<Rightarrow> True
      | (Finite x, Finite y) \<Rightarrow> \<bar>x - y\<bar> < 1 / 10000
      | _ \<Rightarrow> False)"

definition spec_same ::
  "CSSMeasureMode option \<Rightarrow> cfloat \<Rightarrow> CSSMeasureMode \<Rightarrow> cfloat \<Rightarrow> bool" where
  "spec_same priorMode priorAvailable newMode newAvailable =
     ((priorMode = Some CSSMeasureModeUndefined \<and> newMode = CSSMeasureModeUndefined) \<or>
      (priorMode = Some newMode \<and> spec_tolerance_equal priorAvailable newAvailable))"

definition spec_valid ::
  "CSSMeasureMode option \<Rightarrow> cfloat \<Rightarrow> CSSMeasureMode \<Rightarrow> cfloat \<Rightarrow> cfloat \<Rightarrow> bool" where
  "spec_valid priorMode priorComputed newMode newAvailable marginAxis =
     ((priorMode = Some CSSMeasureModeUndefined \<and> newMode = CSSMeasureModeAtMost \<and>
       priorComputed \<le> newAvailable - marginAxis) \<or>
      (newMode = CSSMeasureModeExactly \<and>
       spec_tolerance_equal priorComputed (newAvailable - marginAxis)))"

section \<open>The layout kernel\<close>

text \<open>
  \<^verbatim>\<open>layoutNodeImpl\<close> and \<^verbatim>\<open>layoutNodeInternal\<close> call each other down the tree. The
  functions of this section take the recursive call as the parameter
  \<open>layoutNodeInternal'\<close> (the \<^verbatim>\<open>bool\<close> that \<^verbatim>\<open>layoutNodeInternal\<close> returns is not read by
  any caller in \<^verbatim>\<open>layoutNodeImpl\<close>); the knot is tied by \<open>layoutNodeInternal\<close> below. A
  function that writes a node returns the new node. The result \<open>None\<close> is a call that
  does not return: a failed \<^verbatim>\<open>CSS_ASSERT\<close> (which aborts), or a recursion deeper than the
  bound given to \<open>layoutNodeInternal\<close>.
\<close>

type_synonym layoutFn =
  "CSSNode \<Rightarrow> cfloat \<Rightarrow> cfloat \<Rightarrow> CSSDirection \<Rightarrow> CSSMeasureMode \<Rightarrow> CSSMeasureMode \<Rightarrow> bool \<Rightarrow>
   CSSNode option"

text \<open>A \<^verbatim>\<open>for\<close> loop whose body may not return.\<close>

fun forEachM :: "('a \<Rightarrow> 's \<Rightarrow> 's option) \<Rightarrow> 'a list \<Rightarrow> 's \<Rightarrow> 's option" where
  "forEachM body [] s = Some s"
| "forEachM body (x # xs) s =
     (case body x s of None \<Rightarrow> None | Some s' \<Rightarrow> forEachM body xs s')"

text \<open>The assignments \<^verbatim>\<open>n->layout.position[e] = v\<close>, \<^verbatim>\<open>n->layout.measuredDimensions[d] = v\<close>
  and \<^verbatim>\<open>n->layout.computedFlexBasis = v\<close>.\<close>

definition layoutPosition_set :: "CSSEdge \<Rightarrow> cfloat \<Rightarrow> CSSNode \<Rightarrow> CSSNode" where
  "layoutPosition_set e v n =
     layout_update (\<lambda>l. l\<lparr>CSSLayout.position := (CSSLayout.position l)(e := v)\<rparr>) n"

definition measuredDimensions_set :: "CSSDimension \<Rightarrow> cfloat \<Rightarrow> CSSNode \<Rightarrow> CSSNode" where
  "measuredDimensions_set d v n =
     layout_update (\<lambda>l. l\<lparr>measuredDimensions := (measuredDimensions l)(d := v)\<rparr>) n"

definition computedFlexBasis_set :: "cfloat \<Rightarrow> CSSNode \<Rightarrow> CSSNode" where
  "computedFlexBasis_set v n = layout_update (\<lambda>l. l\<lparr>computedFlexBasis := v\<rparr>) n"

text \<open>\<^verbatim>\<open>computeChildFlexBasis\<close>: returns the child.\<close>

definition computeChildFlexBasis ::
  "layoutFn \<Rightarrow> CSSNode \<Rightarrow> CSSNode \<Rightarrow> cfloat \<Rightarrow> CSSMeasureMode \<Rightarrow> cfloat \<Rightarrow> CSSMeasureMode \<Rightarrow>
   CSSDirection \<Rightarrow> CSSNode option" where
  "computeChildFlexBasis layoutNodeInternal' node child width' widthMode height' heightMode direction' =
     (let mainAxis = resolveAxis (flexDirection (style node)) direction';
          isMainAxisRow = isRowDirection mainAxis
      in if \<not> CSSValueIsUndefined (flexBasis (style child)) \<and>
            \<not> CSSValueIsUndefined (if isMainAxisRow then width' else height') then
           (if CSSValueIsUndefined (computedFlexBasis (layout child)) then
              Some (computedFlexBasis_set
                      (fmaxf (flexBasis (style child)) (getPaddingAndBorderAxis child mainAxis)) child)
            else Some child)
         else if isMainAxisRow \<and> isStyleDimDefined child CSSFlexDirectionRow then
           Some (computedFlexBasis_set
                   (fmaxf (CSSStyle.dimensions (style child) CSSDimensionWidth)
                          (getPaddingAndBorderAxis child CSSFlexDirectionRow)) child)
         else if \<not> isMainAxisRow \<and> isStyleDimDefined child CSSFlexDirectionColumn then
           Some (computedFlexBasis_set
                   (fmaxf (CSSStyle.dimensions (style child) CSSDimensionHeight)
                          (getPaddingAndBorderAxis child CSSFlexDirectionColumn)) child)
         else
           (let childWidth = CSSUndefined;
                childHeight = CSSUndefined;
                childWidthMeasureMode = CSSMeasureModeUndefined;
                childHeightMeasureMode = CSSMeasureModeUndefined;
                (childWidth, childWidthMeasureMode) =
                  (if isStyleDimDefined child CSSFlexDirectionRow
                   then (CSSStyle.dimensions (style child) CSSDimensionWidth +
                           getMarginAxis child CSSFlexDirectionRow, CSSMeasureModeExactly)
                   else (childWidth, childWidthMeasureMode));
                (childHeight, childHeightMeasureMode) =
                  (if isStyleDimDefined child CSSFlexDirectionColumn
                   then (CSSStyle.dimensions (style child) CSSDimensionHeight +
                           getMarginAxis child CSSFlexDirectionColumn, CSSMeasureModeExactly)
                   else (childHeight, childHeightMeasureMode));
                (childWidth, childWidthMeasureMode) =
                  (if ((\<not> isMainAxisRow \<and> overflow (style node) = CSSOverflowScroll) \<or>
                       overflow (style node) \<noteq> CSSOverflowScroll) \<and>
                      CSSValueIsUndefined childWidth \<and> \<not> CSSValueIsUndefined width'
                   then (width', CSSMeasureModeAtMost)
                   else (childWidth, childWidthMeasureMode));
                (childHeight, childHeightMeasureMode) =
                  (if ((isMainAxisRow \<and> overflow (style node) = CSSOverflowScroll) \<or>
                       overflow (style node) \<noteq> CSSOverflowScroll) \<and>
                      CSSValueIsUndefined childHeight \<and> \<not> CSSValueIsUndefined height'
                   then (height', CSSMeasureModeAtMost)
                   else (childHeight, childHeightMeasureMode));
                (childWidth, childWidthMeasureMode) =
                  (if \<not> isMainAxisRow \<and> \<not> CSSValueIsUndefined width' \<and>
                      \<not> isStyleDimDefined child CSSFlexDirectionRow \<and>
                      widthMode = CSSMeasureModeExactly \<and>
                      getAlignItem node child = CSSAlignStretch
                   then (width', CSSMeasureModeExactly)
                   else (childWidth, childWidthMeasureMode));
                (childHeight, childHeightMeasureMode) =
                  (if isMainAxisRow \<and> \<not> CSSValueIsUndefined height' \<and>
                      \<not> isStyleDimDefined child CSSFlexDirectionColumn \<and>
                      heightMode = CSSMeasureModeExactly \<and>
                      getAlignItem node child = CSSAlignStretch
                   then (height', CSSMeasureModeExactly)
                   else (childHeight, childHeightMeasureMode))
            in do {
                 child \<leftarrow> layoutNodeInternal' child childWidth childHeight direction'
                            childWidthMeasureMode childHeightMeasureMode False;
                 Some (computedFlexBasis_set
                         (fmaxf (if isMainAxisRow
                                 then measuredDimensions (layout child) CSSDimensionWidth
                                 else measuredDimensions (layout child) CSSDimensionHeight)
                                (getPaddingAndBorderAxis child mainAxis)) child)
               }))"

text \<open>\<^verbatim>\<open>absoluteLayoutChild\<close>: returns the child.\<close>

definition absoluteLayoutChild ::
  "layoutFn \<Rightarrow> CSSNode \<Rightarrow> CSSNode \<Rightarrow> cfloat \<Rightarrow> CSSMeasureMode \<Rightarrow> CSSDirection \<Rightarrow> CSSNode option" where
  "absoluteLayoutChild layoutNodeInternal' node child width' widthMode direction' =
     (let mainAxis = resolveAxis (flexDirection (style node)) direction';
          crossAxis = getCrossFlexDirection mainAxis direction';
          isMainAxisRow = isRowDirection mainAxis;
          childWidth = CSSUndefined;
          childHeight = CSSUndefined;
          childWidthMeasureMode = CSSMeasureModeUndefined;
          childHeightMeasureMode = CSSMeasureModeUndefined;
          childWidth =
            (if isStyleDimDefined child CSSFlexDirectionRow then
               CSSStyle.dimensions (style child) CSSDimensionWidth +
               getMarginAxis child CSSFlexDirectionRow
             else if isLeadingPosDefined child CSSFlexDirectionRow \<and>
                     isTrailingPosDefined child CSSFlexDirectionRow then
               boundAxis child CSSFlexDirectionRow
                 (measuredDimensions (layout node) CSSDimensionWidth -
                  (getLeadingBorder node CSSFlexDirectionRow +
                   getTrailingBorder node CSSFlexDirectionRow) -
                  (getLeadingPosition child CSSFlexDirectionRow +
                   getTrailingPosition child CSSFlexDirectionRow))
             else childWidth);
          childHeight =
            (if isStyleDimDefined child CSSFlexDirectionColumn then
               CSSStyle.dimensions (style child) CSSDimensionHeight +
               getMarginAxis child CSSFlexDirectionColumn
             else if isLeadingPosDefined child CSSFlexDirectionColumn \<and>
                     isTrailingPosDefined child CSSFlexDirectionColumn then
               boundAxis child CSSFlexDirectionColumn
                 (measuredDimensions (layout node) CSSDimensionHeight -
                  (getLeadingBorder node CSSFlexDirectionColumn +
                   getTrailingBorder node CSSFlexDirectionColumn) -
                  (getLeadingPosition child CSSFlexDirectionColumn +
                   getTrailingPosition child CSSFlexDirectionColumn))
             else childHeight)
      in do {
           (child, childWidth, childHeight) \<leftarrow>
             (if CSSValueIsUndefined childWidth \<or> CSSValueIsUndefined childHeight then
                (let childWidthMeasureMode =
                       (if CSSValueIsUndefined childWidth then CSSMeasureModeUndefined
                        else CSSMeasureModeExactly);
                     childHeightMeasureMode =
                       (if CSSValueIsUndefined childHeight then CSSMeasureModeUndefined
                        else CSSMeasureModeExactly);
                     (childWidth, childWidthMeasureMode) =
                       (if \<not> isMainAxisRow \<and> CSSValueIsUndefined childWidth \<and>
                           widthMode \<noteq> CSSMeasureModeUndefined
                        then (width', CSSMeasureModeAtMost)
                        else (childWidth, childWidthMeasureMode))
                 in do {
                      child \<leftarrow> layoutNodeInternal' child childWidth childHeight direction'
                                 childWidthMeasureMode childHeightMeasureMode False;
                      Some (child,
                            measuredDimensions (layout child) CSSDimensionWidth +
                              getMarginAxis child CSSFlexDirectionRow,
                            measuredDimensions (layout child) CSSDimensionHeight +
                              getMarginAxis child CSSFlexDirectionColumn)
                    })
              else Some (child, childWidth, childHeight));
           child \<leftarrow> layoutNodeInternal' child childWidth childHeight direction'
                      CSSMeasureModeExactly CSSMeasureModeExactly True;
           let child =
             (if isTrailingPosDefined child mainAxis \<and> \<not> isLeadingPosDefined child mainAxis then
                layoutPosition_set (leading mainAxis)
                  (measuredDimensions (layout node) (dim_axis mainAxis) -
                   measuredDimensions (layout child) (dim_axis mainAxis) -
                   getTrailingPosition child mainAxis) child
              else child);
           let child =
             (if isTrailingPosDefined child crossAxis \<and> \<not> isLeadingPosDefined child crossAxis then
                layoutPosition_set (leading crossAxis)
                  (measuredDimensions (layout node) (dim_axis crossAxis) -
                   measuredDimensions (layout child) (dim_axis crossAxis) -
                   getTrailingPosition child crossAxis) child
              else child);
           Some child
         })"

text \<open>
  The branch of \<^verbatim>\<open>layoutNodeImpl\<close> for a node with a measure function and no children.
\<close>

definition layoutNodeImpl_measure ::
  "CSSMeasureFunc \<Rightarrow> CSSNode \<Rightarrow> cfloat \<Rightarrow> cfloat \<Rightarrow> CSSMeasureMode \<Rightarrow> CSSMeasureMode \<Rightarrow> CSSNode" where
  "layoutNodeImpl_measure measure' node availableWidth' availableHeight' widthMeasureMode'
     heightMeasureMode' =
     (let paddingAndBorderAxisRow = getPaddingAndBorderAxis node CSSFlexDirectionRow;
          paddingAndBorderAxisColumn = getPaddingAndBorderAxis node CSSFlexDirectionColumn;
          marginAxisRow = getMarginAxis node CSSFlexDirectionRow;
          marginAxisColumn = getMarginAxis node CSSFlexDirectionColumn;
          innerWidth = availableWidth' - marginAxisRow - paddingAndBorderAxisRow;
          innerHeight = availableHeight' - marginAxisColumn - paddingAndBorderAxisColumn
      in if widthMeasureMode' = CSSMeasureModeExactly \<and> heightMeasureMode' = CSSMeasureModeExactly then
           (let node = measuredDimensions_set CSSDimensionWidth
                         (boundAxis node CSSFlexDirectionRow (availableWidth' - marginAxisRow)) node
            in measuredDimensions_set CSSDimensionHeight
                 (boundAxis node CSSFlexDirectionColumn (availableHeight' - marginAxisColumn)) node)
         else if innerWidth \<le> 0 \<or> innerHeight \<le> 0 then
           (let node = measuredDimensions_set CSSDimensionWidth
                         (boundAxis node CSSFlexDirectionRow 0) node
            in measuredDimensions_set CSSDimensionHeight
                 (boundAxis node CSSFlexDirectionColumn 0) node)
         else
           (let measuredSize = measure' innerWidth widthMeasureMode' innerHeight heightMeasureMode';
                node = measuredDimensions_set CSSDimensionWidth
                         (boundAxis node CSSFlexDirectionRow
                            (if widthMeasureMode' = CSSMeasureModeUndefined \<or>
                                widthMeasureMode' = CSSMeasureModeAtMost
                             then width measuredSize + paddingAndBorderAxisRow
                             else availableWidth' - marginAxisRow)) node
            in measuredDimensions_set CSSDimensionHeight
                 (boundAxis node CSSFlexDirectionColumn
                    (if heightMeasureMode' = CSSMeasureModeUndefined \<or>
                        heightMeasureMode' = CSSMeasureModeAtMost
                     then height measuredSize + paddingAndBorderAxisColumn
                     else availableHeight' - marginAxisColumn)) node))"

text \<open>The branch for a node with no children (\<^verbatim>\<open>childCount == 0\<close>).\<close>

definition layoutNodeImpl_empty ::
  "CSSNode \<Rightarrow> cfloat \<Rightarrow> cfloat \<Rightarrow> CSSMeasureMode \<Rightarrow> CSSMeasureMode \<Rightarrow> CSSNode" where
  "layoutNodeImpl_empty node availableWidth' availableHeight' widthMeasureMode' heightMeasureMode' =
     (let paddingAndBorderAxisRow = getPaddingAndBorderAxis node CSSFlexDirectionRow;
          paddingAndBorderAxisColumn = getPaddingAndBorderAxis node CSSFlexDirectionColumn;
          marginAxisRow = getMarginAxis node CSSFlexDirectionRow;
          marginAxisColumn = getMarginAxis node CSSFlexDirectionColumn;
          node = measuredDimensions_set CSSDimensionWidth
                   (boundAxis node CSSFlexDirectionRow
                      (if widthMeasureMode' = CSSMeasureModeUndefined \<or>
                          widthMeasureMode' = CSSMeasureModeAtMost
                       then paddingAndBorderAxisRow
                       else availableWidth' - marginAxisRow)) node
      in measuredDimensions_set CSSDimensionHeight
           (boundAxis node CSSFlexDirectionColumn
              (if heightMeasureMode' = CSSMeasureModeUndefined \<or>
                  heightMeasureMode' = CSSMeasureModeAtMost
               then paddingAndBorderAxisColumn
               else availableHeight' - marginAxisColumn)) node)"

text \<open>
  The block \<^verbatim>\<open>if (!performLayout) { ... }\<close>: \<open>Some\<close> node when one of its four cases
  returns, \<open>None\<close> when the function goes on to step 1.
\<close>

definition layoutNodeImpl_measureOnly ::
  "CSSNode \<Rightarrow> cfloat \<Rightarrow> cfloat \<Rightarrow> CSSMeasureMode \<Rightarrow> CSSMeasureMode \<Rightarrow> CSSNode option" where
  "layoutNodeImpl_measureOnly node availableWidth' availableHeight' widthMeasureMode'
     heightMeasureMode' =
     (let marginAxisRow = getMarginAxis node CSSFlexDirectionRow;
          marginAxisColumn = getMarginAxis node CSSFlexDirectionColumn
      in if widthMeasureMode' = CSSMeasureModeAtMost \<and> availableWidth' \<le> 0 \<and>
            heightMeasureMode' = CSSMeasureModeAtMost \<and> availableHeight' \<le> 0 then
           (let node = measuredDimensions_set CSSDimensionWidth
                         (boundAxis node CSSFlexDirectionRow 0) node
            in Some (measuredDimensions_set CSSDimensionHeight
                       (boundAxis node CSSFlexDirectionColumn 0) node))
         else if widthMeasureMode' = CSSMeasureModeAtMost \<and> availableWidth' \<le> 0 then
           (let node = measuredDimensions_set CSSDimensionWidth
                         (boundAxis node CSSFlexDirectionRow 0) node
            in Some (measuredDimensions_set CSSDimensionHeight
                       (boundAxis node CSSFlexDirectionColumn
                          (if CSSValueIsUndefined availableHeight' then 0
                           else availableHeight' - marginAxisColumn)) node))
         else if heightMeasureMode' = CSSMeasureModeAtMost \<and> availableHeight' \<le> 0 then
           (let node = measuredDimensions_set CSSDimensionWidth
                         (boundAxis node CSSFlexDirectionRow
                            (if CSSValueIsUndefined availableWidth' then 0
                             else availableWidth' - marginAxisRow)) node
            in Some (measuredDimensions_set CSSDimensionHeight
                       (boundAxis node CSSFlexDirectionColumn 0) node))
         else if widthMeasureMode' = CSSMeasureModeExactly \<and>
                 heightMeasureMode' = CSSMeasureModeExactly then
           (let node = measuredDimensions_set CSSDimensionWidth
                         (boundAxis node CSSFlexDirectionRow (availableWidth' - marginAxisRow)) node
            in Some (measuredDimensions_set CSSDimensionHeight
                       (boundAxis node CSSFlexDirectionColumn
                          (availableHeight' - marginAxisColumn)) node))
         else None)"

text \<open>
  Step 3, the body of the loop over the children. The state is the list of children
  and the list of the absolutely positioned children (\<^verbatim>\<open>firstAbsoluteChild\<close> and its
  \<^verbatim>\<open>nextChild\<close> chain), as indices.
\<close>

definition layoutNodeImpl_step3 ::
  "layoutFn \<Rightarrow> CSSNode \<Rightarrow> cfloat \<Rightarrow> CSSMeasureMode \<Rightarrow> cfloat \<Rightarrow> CSSMeasureMode \<Rightarrow> CSSDirection \<Rightarrow>
   bool \<Rightarrow> nat \<Rightarrow> CSSNode list \<times> nat list \<Rightarrow> (CSSNode list \<times> nat list) option" where
  "layoutNodeImpl_step3 layoutNodeInternal' node availableInnerWidth widthMeasureMode'
     availableInnerHeight heightMeasureMode' direction' performLayout i st =
     (case st of (cs, absoluteChildren) \<Rightarrow>
       (let child = cs ! i;
            child = (if performLayout
                     then (let childDirection = resolveDirection child direction'
                           in setPosition child childDirection)
                     else child)
        in if positionType (style child) = CSSPositionTypeAbsolute then
             Some (cs[i := child], absoluteChildren @ [i])
           else do {
             child \<leftarrow> computeChildFlexBasis layoutNodeInternal' node child availableInnerWidth
                        widthMeasureMode' availableInnerHeight heightMeasureMode' direction';
             Some (cs[i := child], absoluteChildren)
           }))"

text \<open>
  Step 4, the inner loop that adds items to the current line. \<open>relativeChildren\<close> is the
  list \<^verbatim>\<open>firstRelativeChild\<close> with its \<^verbatim>\<open>nextChild\<close> chain, as indices. The loop runs over
  the indices from \<^verbatim>\<open>startOfLineIndex\<close> to \<^verbatim>\<open>childCount\<close>; \<^verbatim>\<open>break\<close> returns the state.
\<close>

record flexLine =
  lineChildren :: "CSSNode list"
  endOfLineIndex :: nat
  itemsOnLine :: nat
  sizeConsumedOnCurrentLine :: cfloat
  totalFlexGrowFactors :: cfloat
  totalFlexShrinkScaledFactors :: cfloat
  relativeChildren :: "nat list"

fun layoutNodeImpl_step4 ::
  "CSSFlexDirection \<Rightarrow> cfloat \<Rightarrow> bool \<Rightarrow> nat \<Rightarrow> nat list \<Rightarrow> flexLine \<Rightarrow> flexLine" where
  "layoutNodeImpl_step4 mainAxis availableInnerMainDim isNodeFlexWrap lineCount [] line = line"
| "layoutNodeImpl_step4 mainAxis availableInnerMainDim isNodeFlexWrap lineCount (i # rest) line =
     (let child = lineIndex_update (\<lambda>_. lineCount) (lineChildren line ! i);
          line = line\<lparr>lineChildren := (lineChildren line)[i := child]\<rparr>
      in if positionType (style child) \<noteq> CSSPositionTypeAbsolute then
           (let outerFlexBasis = computedFlexBasis (layout child) + getMarginAxis child mainAxis
            in if availableInnerMainDim < sizeConsumedOnCurrentLine line + outerFlexBasis \<and>
                  isNodeFlexWrap \<and> 0 < itemsOnLine line then line
               else
                 (let line = line\<lparr>sizeConsumedOnCurrentLine :=
                                 sizeConsumedOnCurrentLine line + outerFlexBasis,
                               itemsOnLine := Suc (itemsOnLine line)\<rparr>;
                      line = (if isFlex child then
                              line\<lparr>totalFlexGrowFactors :=
                                    totalFlexGrowFactors line + flexGrow (style child),
                                  totalFlexShrinkScaledFactors :=
                                    totalFlexShrinkScaledFactors line +
                                    (- flexShrink (style child)) * computedFlexBasis (layout child)\<rparr>
                            else line);
                      line = line\<lparr>relativeChildren := relativeChildren line @ [i],
                               endOfLineIndex := Suc (endOfLineIndex line)\<rparr>
                  in layoutNodeImpl_step4 mainAxis availableInnerMainDim isNodeFlexWrap lineCount rest line))
         else layoutNodeImpl_step4 mainAxis availableInnerMainDim isNodeFlexWrap lineCount rest
                (line\<lparr>endOfLineIndex := Suc (endOfLineIndex line)\<rparr>))"

text \<open>
  The constants that step 1 and step 2 of \<^verbatim>\<open>layoutNodeImpl\<close> compute (\<^verbatim>\<open>mainAxis\<close>,
  \<^verbatim>\<open>crossAxis\<close>, \<^verbatim>\<open>isMainAxisRow\<close>, the padding and border sums, the measure modes of the
  two axes) are functions of the node, the direction and the arguments; the definitions
  of the later steps take those and compute the constants again.

  Step 5, first pass: the body of the \<^verbatim>\<open>while\<close> loop over the relative children of the
  line, on the state \<^verbatim>\<open>(deltaFreeSpace, deltaFlexShrinkScaledFactors, deltaFlexGrowFactors)\<close>.
\<close>

definition layoutNodeImpl_step5_pass1 ::
  "CSSFlexDirection \<Rightarrow> CSSNode list \<Rightarrow> cfloat \<Rightarrow> cfloat \<Rightarrow> cfloat \<Rightarrow> nat \<Rightarrow>
   cfloat \<times> cfloat \<times> cfloat \<Rightarrow> cfloat \<times> cfloat \<times> cfloat" where
  "layoutNodeImpl_step5_pass1 mainAxis cs remainingFreeSpace totalFlexShrinkScaledFactors'
     totalFlexGrowFactors' idx st =
     (case st of (deltaFreeSpace, deltaFlexShrinkScaledFactors, deltaFlexGrowFactors) \<Rightarrow>
       (let currentRelativeChild = cs ! idx;
            childFlexBasis = computedFlexBasis (layout currentRelativeChild)
        in if remainingFreeSpace < 0 then
             (let flexShrinkScaledFactor =
                    (- flexShrink (style currentRelativeChild)) * childFlexBasis
              in if fne flexShrinkScaledFactor 0 then
                   (let baseMainSize =
                          childFlexBasis +
                          (remainingFreeSpace / totalFlexShrinkScaledFactors') * flexShrinkScaledFactor;
                        boundMainSize = boundAxis currentRelativeChild mainAxis baseMainSize
                    in if fne baseMainSize boundMainSize then
                         (deltaFreeSpace - (boundMainSize - childFlexBasis),
                          deltaFlexShrinkScaledFactors - flexShrinkScaledFactor,
                          deltaFlexGrowFactors)
                       else st)
                 else st)
           else if 0 < remainingFreeSpace then
             (let flexGrowFactor = flexGrow (style currentRelativeChild)
              in if fne flexGrowFactor 0 then
                   (let baseMainSize =
                          childFlexBasis +
                          (remainingFreeSpace / totalFlexGrowFactors') * flexGrowFactor;
                        boundMainSize = boundAxis currentRelativeChild mainAxis baseMainSize
                    in if fne baseMainSize boundMainSize then
                         (deltaFreeSpace - (boundMainSize - childFlexBasis),
                          deltaFlexShrinkScaledFactors,
                          deltaFlexGrowFactors - flexGrowFactor)
                       else st)
                 else st)
           else st))"

text \<open>
  Step 5, second pass: the body of the \<^verbatim>\<open>while\<close> loop, on the children and
  \<^verbatim>\<open>deltaFreeSpace\<close>.
\<close>

definition layoutNodeImpl_step5_pass2 ::
  "layoutFn \<Rightarrow> CSSNode \<Rightarrow> CSSDirection \<Rightarrow> cfloat \<Rightarrow> CSSMeasureMode \<Rightarrow> CSSMeasureMode \<Rightarrow> bool \<Rightarrow>
   cfloat \<Rightarrow> cfloat \<Rightarrow> cfloat \<Rightarrow> nat \<Rightarrow> CSSNode list \<times> cfloat \<Rightarrow> (CSSNode list \<times> cfloat) option" where
  "layoutNodeImpl_step5_pass2 layoutNodeInternal' node direction' availableInnerCrossDim
     widthMeasureMode' heightMeasureMode' performLayout remainingFreeSpace
     totalFlexShrinkScaledFactors' totalFlexGrowFactors' idx st =
     (case st of (cs, deltaFreeSpace) \<Rightarrow>
       (let mainAxis = resolveAxis (flexDirection (style node)) direction';
            crossAxis = getCrossFlexDirection mainAxis direction';
            isMainAxisRow = isRowDirection mainAxis;
            currentRelativeChild = cs ! idx;
            childFlexBasis = computedFlexBasis (layout currentRelativeChild);
            updatedMainSize = childFlexBasis;
            updatedMainSize =
              (if remainingFreeSpace < 0 then
                 (let flexShrinkScaledFactor =
                        (- flexShrink (style currentRelativeChild)) * childFlexBasis
                  in if fne flexShrinkScaledFactor 0 then
                       (let childSize =
                              (if totalFlexShrinkScaledFactors' = 0
                               then childFlexBasis + flexShrinkScaledFactor
                               else childFlexBasis +
                                    (remainingFreeSpace / totalFlexShrinkScaledFactors') *
                                    flexShrinkScaledFactor)
                        in boundAxis currentRelativeChild mainAxis childSize)
                     else updatedMainSize)
               else if 0 < remainingFreeSpace then
                 (let flexGrowFactor = flexGrow (style currentRelativeChild)
                  in if fne flexGrowFactor 0 then
                       boundAxis currentRelativeChild mainAxis
                         (childFlexBasis +
                          (remainingFreeSpace / totalFlexGrowFactors') * flexGrowFactor)
                     else updatedMainSize)
               else updatedMainSize);
            deltaFreeSpace = deltaFreeSpace - (updatedMainSize - childFlexBasis);
            (childWidth, childWidthMeasureMode, childHeight, childHeightMeasureMode) =
              (if isMainAxisRow then
                 (let childWidth =
                        updatedMainSize + getMarginAxis currentRelativeChild CSSFlexDirectionRow;
                      childWidthMeasureMode = CSSMeasureModeExactly
                  in if \<not> CSSValueIsUndefined availableInnerCrossDim \<and>
                        \<not> isStyleDimDefined currentRelativeChild CSSFlexDirectionColumn \<and>
                        heightMeasureMode' = CSSMeasureModeExactly \<and>
                        getAlignItem node currentRelativeChild = CSSAlignStretch then
                       (childWidth, childWidthMeasureMode,
                        availableInnerCrossDim, CSSMeasureModeExactly)
                     else if \<not> isStyleDimDefined currentRelativeChild CSSFlexDirectionColumn then
                       (childWidth, childWidthMeasureMode,
                        availableInnerCrossDim,
                        (if CSSValueIsUndefined availableInnerCrossDim
                         then CSSMeasureModeUndefined else CSSMeasureModeAtMost))
                     else
                       (childWidth, childWidthMeasureMode,
                        CSSStyle.dimensions (style currentRelativeChild) CSSDimensionHeight +
                          getMarginAxis currentRelativeChild CSSFlexDirectionColumn,
                        CSSMeasureModeExactly))
               else
                 (let childHeight =
                        updatedMainSize + getMarginAxis currentRelativeChild CSSFlexDirectionColumn;
                      childHeightMeasureMode = CSSMeasureModeExactly
                  in if \<not> CSSValueIsUndefined availableInnerCrossDim \<and>
                        \<not> isStyleDimDefined currentRelativeChild CSSFlexDirectionRow \<and>
                        widthMeasureMode' = CSSMeasureModeExactly \<and>
                        getAlignItem node currentRelativeChild = CSSAlignStretch then
                       (availableInnerCrossDim, CSSMeasureModeExactly,
                        childHeight, childHeightMeasureMode)
                     else if \<not> isStyleDimDefined currentRelativeChild CSSFlexDirectionRow then
                       (availableInnerCrossDim,
                        (if CSSValueIsUndefined availableInnerCrossDim
                         then CSSMeasureModeUndefined else CSSMeasureModeAtMost),
                        childHeight, childHeightMeasureMode)
                     else
                       (CSSStyle.dimensions (style currentRelativeChild) CSSDimensionWidth +
                          getMarginAxis currentRelativeChild CSSFlexDirectionRow,
                        CSSMeasureModeExactly,
                        childHeight, childHeightMeasureMode)));
            requiresStretchLayout =
              (\<not> isStyleDimDefined currentRelativeChild crossAxis \<and>
               getAlignItem node currentRelativeChild = CSSAlignStretch)
        in do {
             currentRelativeChild \<leftarrow>
               layoutNodeInternal' currentRelativeChild childWidth childHeight direction'
                 childWidthMeasureMode childHeightMeasureMode
                 (performLayout \<and> \<not> requiresStretchLayout);
             Some (cs[idx := currentRelativeChild], deltaFreeSpace)
           }))"

text \<open>
  Step 6: the clamp of \<^verbatim>\<open>remainingFreeSpace\<close> and the \<^verbatim>\<open>switch\<close> on \<^verbatim>\<open>justifyContent\<close>;
  returns \<^verbatim>\<open>(leadingMainDim, betweenMainDim)\<close>. The unsigned \<^verbatim>\<open>itemsOnLine\<close> is converted
  to a float by the division.
\<close>

definition layoutNodeImpl_step6 ::
  "CSSNode \<Rightarrow> CSSFlexDirection \<Rightarrow> CSSMeasureMode \<Rightarrow> cfloat \<Rightarrow> nat \<Rightarrow> cfloat \<Rightarrow> cfloat \<times> cfloat" where
  "layoutNodeImpl_step6 node mainAxis measureModeMainDim availableInnerMainDim itemsOnLine'
     remainingFreeSpace =
     (let remainingFreeSpace =
            (if measureModeMainDim = CSSMeasureModeAtMost \<and> 0 < remainingFreeSpace then
               (if \<not> CSSValueIsUndefined (minDimensions (style node) (dim_axis mainAxis)) \<and>
                   0 \<le> minDimensions (style node) (dim_axis mainAxis)
                then fmaxf 0 (minDimensions (style node) (dim_axis mainAxis) -
                              (availableInnerMainDim - remainingFreeSpace))
                else 0)
             else remainingFreeSpace);
          leadingMainDim = 0;
          betweenMainDim = 0
      in case justifyContent (style node) of
           CSSJustifyCenter \<Rightarrow> (remainingFreeSpace / Finite 2, betweenMainDim)
         | CSSJustifyFlexEnd \<Rightarrow> (remainingFreeSpace, betweenMainDim)
         | CSSJustifySpaceBetween \<Rightarrow>
             (if 1 < itemsOnLine'
              then (leadingMainDim, fmaxf remainingFreeSpace 0 / Finite (real (itemsOnLine' - 1)))
              else (leadingMainDim, 0))
         | CSSJustifySpaceAround \<Rightarrow>
             (let betweenMainDim = remainingFreeSpace / Finite (real itemsOnLine')
              in (betweenMainDim / Finite 2, betweenMainDim))
         | CSSJustifyFlexStart \<Rightarrow> (leadingMainDim, betweenMainDim))"

text \<open>
  Step 6, the loop that places the children of the line along the main axis, on the
  state \<^verbatim>\<open>(children, mainDim, crossDim)\<close>.
\<close>

definition layoutNodeImpl_step6_place ::
  "CSSNode \<Rightarrow> CSSFlexDirection \<Rightarrow> CSSFlexDirection \<Rightarrow> bool \<Rightarrow> bool \<Rightarrow> cfloat \<Rightarrow> cfloat \<Rightarrow> nat \<Rightarrow>
   CSSNode list \<times> cfloat \<times> cfloat \<Rightarrow> CSSNode list \<times> cfloat \<times> cfloat" where
  "layoutNodeImpl_step6_place node mainAxis crossAxis performLayout canSkipFlex betweenMainDim
     availableInnerCrossDim i st =
     (case st of (cs, mainDim, crossDim) \<Rightarrow>
       (let child = cs ! i
        in if positionType (style child) = CSSPositionTypeAbsolute \<and>
              isLeadingPosDefined child mainAxis then
             (if performLayout then
                (cs[i := layoutPosition_set (pos mainAxis)
                           (getLeadingPosition child mainAxis + getLeadingBorder node mainAxis +
                            getLeadingMargin child mainAxis) child],
                 mainDim, crossDim)
              else st)
           else
             (let child =
                    (if performLayout then
                       layoutPosition_set (pos mainAxis)
                         (CSSLayout.position (layout child) (pos mainAxis) + mainDim) child
                     else child);
                  cs = cs[i := child]
              in if positionType (style child) = CSSPositionTypeRelative then
                   (if canSkipFlex then
                      (cs,
                       mainDim + (betweenMainDim + getMarginAxis child mainAxis +
                                  computedFlexBasis (layout child)),
                       availableInnerCrossDim)
                    else
                      (cs,
                       mainDim + (betweenMainDim + getDimWithMargin child mainAxis),
                       fmaxf crossDim (getDimWithMargin child crossAxis)))
                 else (cs, mainDim, crossDim))))"

text \<open>Step 7: the body of the loop that aligns the children of the line on the cross axis.\<close>

definition layoutNodeImpl_step7 ::
  "layoutFn \<Rightarrow> CSSNode \<Rightarrow> CSSDirection \<Rightarrow> cfloat \<Rightarrow> cfloat \<Rightarrow> cfloat \<Rightarrow> nat \<Rightarrow> CSSNode list \<Rightarrow>
   CSSNode list option" where
  "layoutNodeImpl_step7 layoutNodeInternal' node direction' crossDim containerCrossAxis
     totalLineCrossDim i cs =
     (let mainAxis = resolveAxis (flexDirection (style node)) direction';
          crossAxis = getCrossFlexDirection mainAxis direction';
          isMainAxisRow = isRowDirection mainAxis;
          leadingPaddingAndBorderCross = getLeadingPaddingAndBorder node crossAxis;
          child = cs ! i
      in if positionType (style child) = CSSPositionTypeAbsolute then
           (if isLeadingPosDefined child crossAxis then
              Some (cs[i := layoutPosition_set (pos crossAxis)
                              (getLeadingPosition child crossAxis + getLeadingBorder node crossAxis +
                               getLeadingMargin child crossAxis) child])
            else
              Some (cs[i := layoutPosition_set (pos crossAxis)
                              (leadingPaddingAndBorderCross + getLeadingMargin child crossAxis)
                              child]))
         else
           (let leadingCrossDim = leadingPaddingAndBorderCross;
                alignItem = getAlignItem node child
            in do {
                 (child, leadingCrossDim) \<leftarrow>
                   (if alignItem = CSSAlignStretch then
                      (let isCrossSizeDefinite =
                             ((isMainAxisRow \<and> isStyleDimDefined child CSSFlexDirectionColumn) \<or>
                              (\<not> isMainAxisRow \<and> isStyleDimDefined child CSSFlexDirectionRow));
                           (childWidth, childHeight) =
                             (if isMainAxisRow then
                                (measuredDimensions (layout child) CSSDimensionWidth +
                                   getMarginAxis child CSSFlexDirectionRow,
                                 crossDim)
                              else
                                (crossDim,
                                 measuredDimensions (layout child) CSSDimensionHeight +
                                   getMarginAxis child CSSFlexDirectionColumn))
                       in if \<not> isCrossSizeDefinite then
                            (let childWidthMeasureMode =
                                   (if CSSValueIsUndefined childWidth then CSSMeasureModeUndefined
                                    else CSSMeasureModeExactly);
                                 childHeightMeasureMode =
                                   (if CSSValueIsUndefined childHeight then CSSMeasureModeUndefined
                                    else CSSMeasureModeExactly)
                             in do {
                                  child \<leftarrow> layoutNodeInternal' child childWidth childHeight
                                             direction' childWidthMeasureMode
                                             childHeightMeasureMode True;
                                  Some (child, leadingCrossDim)
                                })
                          else Some (child, leadingCrossDim))
                    else if alignItem \<noteq> CSSAlignFlexStart then
                      (let remainingCrossDim = containerCrossAxis - getDimWithMargin child crossAxis
                       in if alignItem = CSSAlignCenter
                          then Some (child, leadingCrossDim + remainingCrossDim / Finite 2)
                          else Some (child, leadingCrossDim + remainingCrossDim))
                    else Some (child, leadingCrossDim));
                 Some (cs[i := layoutPosition_set (pos crossAxis)
                                 (CSSLayout.position (layout child) (pos crossAxis) +
                                  (totalLineCrossDim + leadingCrossDim)) child])
               }))"

text \<open>
  Steps 5 to 7 for one line: the body of the loop over the lines, after the inner loop
  of step 4 has collected the line. Returns the children, \<^verbatim>\<open>crossDim\<close> and \<^verbatim>\<open>mainDim\<close>.
\<close>

definition layoutNodeImpl_line ::
  "layoutFn \<Rightarrow> CSSNode \<Rightarrow> cfloat \<Rightarrow> cfloat \<Rightarrow> CSSDirection \<Rightarrow> CSSMeasureMode \<Rightarrow> CSSMeasureMode \<Rightarrow>
   bool \<Rightarrow> nat \<Rightarrow> cfloat \<Rightarrow> flexLine \<Rightarrow> (CSSNode list \<times> cfloat \<times> cfloat) option" where
  "layoutNodeImpl_line layoutNodeInternal' node availableWidth' availableHeight' direction'
     widthMeasureMode' heightMeasureMode' performLayout startOfLineIndex totalLineCrossDim line =
     (let paddingAndBorderAxisRow = getPaddingAndBorderAxis node CSSFlexDirectionRow;
          paddingAndBorderAxisColumn = getPaddingAndBorderAxis node CSSFlexDirectionColumn;
          marginAxisRow = getMarginAxis node CSSFlexDirectionRow;
          marginAxisColumn = getMarginAxis node CSSFlexDirectionColumn;
          mainAxis = resolveAxis (flexDirection (style node)) direction';
          crossAxis = getCrossFlexDirection mainAxis direction';
          isMainAxisRow = isRowDirection mainAxis;
          isNodeFlexWrap = (flexWrap (style node) = CSSWrapTypeWrap);
          leadingPaddingAndBorderMain = getLeadingPaddingAndBorder node mainAxis;
          trailingPaddingAndBorderMain = getTrailingPaddingAndBorder node mainAxis;
          paddingAndBorderAxisCross = getPaddingAndBorderAxis node crossAxis;
          measureModeMainDim = (if isMainAxisRow then widthMeasureMode' else heightMeasureMode');
          measureModeCrossDim = (if isMainAxisRow then heightMeasureMode' else widthMeasureMode');
          availableInnerWidth = availableWidth' - marginAxisRow - paddingAndBorderAxisRow;
          availableInnerHeight = availableHeight' - marginAxisColumn - paddingAndBorderAxisColumn;
          availableInnerMainDim = (if isMainAxisRow then availableInnerWidth else availableInnerHeight);
          availableInnerCrossDim = (if isMainAxisRow then availableInnerHeight else availableInnerWidth);
          canSkipFlex = (\<not> performLayout \<and> measureModeCrossDim = CSSMeasureModeExactly);
          remainingFreeSpace =
            (if \<not> CSSValueIsUndefined availableInnerMainDim
             then availableInnerMainDim - sizeConsumedOnCurrentLine line
             else if sizeConsumedOnCurrentLine line < 0 then - sizeConsumedOnCurrentLine line
             else 0);
          originalRemainingFreeSpace = remainingFreeSpace;
          deltaFreeSpace = 0
      in do {
           (cs, deltaFreeSpace) \<leftarrow>
             (if \<not> canSkipFlex then
                (let (deltaFreeSpace, deltaFlexShrinkScaledFactors, deltaFlexGrowFactors) =
                       fold (layoutNodeImpl_step5_pass1 mainAxis (lineChildren line)
                               remainingFreeSpace (totalFlexShrinkScaledFactors line)
                               (totalFlexGrowFactors line))
                            (relativeChildren line) (deltaFreeSpace, 0, 0);
                     totalFlexShrinkScaledFactors' =
                       totalFlexShrinkScaledFactors line + deltaFlexShrinkScaledFactors;
                     totalFlexGrowFactors' = totalFlexGrowFactors line + deltaFlexGrowFactors;
                     remainingFreeSpace = remainingFreeSpace + deltaFreeSpace;
                     deltaFreeSpace = 0
                 in forEachM
                      (layoutNodeImpl_step5_pass2 layoutNodeInternal' node direction'
                         availableInnerCrossDim widthMeasureMode' heightMeasureMode' performLayout
                         remainingFreeSpace totalFlexShrinkScaledFactors' totalFlexGrowFactors')
                      (relativeChildren line) (lineChildren line, deltaFreeSpace))
              else Some (lineChildren line, deltaFreeSpace));
           let remainingFreeSpace = originalRemainingFreeSpace + deltaFreeSpace;
           let (leadingMainDim, betweenMainDim) =
                 layoutNodeImpl_step6 node mainAxis measureModeMainDim availableInnerMainDim
                   (itemsOnLine line) remainingFreeSpace;
           let mainDim = leadingPaddingAndBorderMain + leadingMainDim;
           let crossDim = 0;
           let (cs, mainDim, crossDim) =
                 fold (layoutNodeImpl_step6_place node mainAxis crossAxis performLayout canSkipFlex
                         betweenMainDim availableInnerCrossDim)
                      [startOfLineIndex..<endOfLineIndex line] (cs, mainDim, crossDim);
           let mainDim = mainDim + trailingPaddingAndBorderMain;
           let containerCrossAxis = availableInnerCrossDim;
           let containerCrossAxis =
                 (if measureModeCrossDim = CSSMeasureModeUndefined \<or>
                     measureModeCrossDim = CSSMeasureModeAtMost then
                    (let containerCrossAxis =
                           boundAxis node crossAxis (crossDim + paddingAndBorderAxisCross) -
                           paddingAndBorderAxisCross
                     in if measureModeCrossDim = CSSMeasureModeAtMost
                        then fminf containerCrossAxis availableInnerCrossDim
                        else containerCrossAxis)
                  else containerCrossAxis);
           let crossDim =
                 (if \<not> isNodeFlexWrap \<and> measureModeCrossDim = CSSMeasureModeExactly
                  then availableInnerCrossDim else crossDim);
           let crossDim =
                 boundAxis node crossAxis (crossDim + paddingAndBorderAxisCross) -
                 paddingAndBorderAxisCross;
           cs \<leftarrow>
             (if performLayout then
                forEachM (layoutNodeImpl_step7 layoutNodeInternal' node direction' crossDim
                            containerCrossAxis totalLineCrossDim)
                         [startOfLineIndex..<endOfLineIndex line] cs
              else Some cs);
           Some (cs, crossDim, mainDim)
         })"

text \<open>
  The inner loop of step 4 takes at least one child into the line: \<^verbatim>\<open>break\<close> needs
  \<^verbatim>\<open>itemsOnLine > 0\<close>. So the loop over the lines ends.
\<close>

lemma layoutNodeImpl_step4_mono:
  "endOfLineIndex line
     \<le> endOfLineIndex (layoutNodeImpl_step4 mainAxis availableInnerMainDim isNodeFlexWrap lineCount
                         idxs line)"
proof (induction idxs arbitrary: line)
  case Nil
  show ?case by simp
next
  case (Cons i idxs)
  have le: "\<And>l. endOfLineIndex line \<le> endOfLineIndex l \<Longrightarrow>
      endOfLineIndex line \<le> endOfLineIndex (layoutNodeImpl_step4 mainAxis availableInnerMainDim
         isNodeFlexWrap lineCount idxs l)"
    using Cons.IH order_trans by blast
  show ?case
    by (simp add: Let_def le)
qed

lemma layoutNodeImpl_step4_progress:
  assumes "itemsOnLine line = 0" "idxs \<noteq> []"
  shows "endOfLineIndex line
     < endOfLineIndex (layoutNodeImpl_step4 mainAxis availableInnerMainDim isNodeFlexWrap lineCount
                         idxs line)"
proof -
  obtain i rest where idxs: "idxs = i # rest" using assms(2) by (cases idxs) auto
  have lt: "\<And>l. endOfLineIndex line < endOfLineIndex l \<Longrightarrow>
      endOfLineIndex line < endOfLineIndex (layoutNodeImpl_step4 mainAxis availableInnerMainDim
         isNodeFlexWrap lineCount rest l)"
    using layoutNodeImpl_step4_mono less_le_trans by blast
  show ?thesis
    unfolding idxs by (simp add: Let_def assms(1) lt)
qed

text \<open>
  The loop over the lines (\<^verbatim>\<open>for (; endOfLineIndex < childCount; lineCount++,
  startOfLineIndex = endOfLineIndex)\<close>). At the head of the loop \<^verbatim>\<open>startOfLineIndex\<close> and
  \<^verbatim>\<open>endOfLineIndex\<close> are equal. Returns the children, \<^verbatim>\<open>lineCount\<close>, \<^verbatim>\<open>totalLineCrossDim\<close>
  and \<^verbatim>\<open>maxLineMainDim\<close>.
\<close>

function layoutNodeImpl_lines ::
  "layoutFn \<Rightarrow> CSSNode \<Rightarrow> cfloat \<Rightarrow> cfloat \<Rightarrow> CSSDirection \<Rightarrow> CSSMeasureMode \<Rightarrow> CSSMeasureMode \<Rightarrow>
   bool \<Rightarrow> nat \<Rightarrow> nat \<Rightarrow> nat \<Rightarrow> cfloat \<Rightarrow> cfloat \<Rightarrow> CSSNode list \<Rightarrow>
   (CSSNode list \<times> nat \<times> cfloat \<times> cfloat) option" where
  "layoutNodeImpl_lines layoutNodeInternal' node availableWidth' availableHeight' direction'
     widthMeasureMode' heightMeasureMode' performLayout childCount startOfLineIndex lineCount
     totalLineCrossDim maxLineMainDim cs =
     (if startOfLineIndex < childCount then
        (let line =
               layoutNodeImpl_step4 (resolveAxis (flexDirection (style node)) direction')
                 (if isRowDirection (resolveAxis (flexDirection (style node)) direction')
                  then availableWidth' - getMarginAxis node CSSFlexDirectionRow -
                       getPaddingAndBorderAxis node CSSFlexDirectionRow
                  else availableHeight' - getMarginAxis node CSSFlexDirectionColumn -
                       getPaddingAndBorderAxis node CSSFlexDirectionColumn)
                 (flexWrap (style node) = CSSWrapTypeWrap) lineCount
                 [startOfLineIndex..<childCount]
                 \<lparr>lineChildren = cs, endOfLineIndex = startOfLineIndex, itemsOnLine = 0,
                  sizeConsumedOnCurrentLine = 0, totalFlexGrowFactors = 0,
                  totalFlexShrinkScaledFactors = 0, relativeChildren = []\<rparr>
         in case layoutNodeImpl_line layoutNodeInternal' node availableWidth' availableHeight'
                   direction' widthMeasureMode' heightMeasureMode' performLayout startOfLineIndex
                   totalLineCrossDim line of
              None \<Rightarrow> None
            | Some (cs, crossDim, mainDim) \<Rightarrow>
                layoutNodeImpl_lines layoutNodeInternal' node availableWidth' availableHeight'
                  direction' widthMeasureMode' heightMeasureMode' performLayout childCount
                  (endOfLineIndex line) (Suc lineCount) (totalLineCrossDim + crossDim)
                  (fmaxf maxLineMainDim mainDim) cs)
      else Some (cs, lineCount, totalLineCrossDim, maxLineMainDim))"
  by pat_completeness auto
termination
proof (relation "Wellfounded.measure
    (\<lambda>(f, node, aw, ah, d, wm, hm, pl, childCount, startOfLineIndex, lc, t, m, cs).
        childCount - startOfLineIndex)",
    goal_cases)
  case 1
  show ?case by simp
next
  case (2 f node aw ah d wm hm pl childCount startOfLineIndex lc t m cs line)
  let ?init = "\<lparr>lineChildren = cs, endOfLineIndex = startOfLineIndex, itemsOnLine = 0,
      sizeConsumedOnCurrentLine = 0, totalFlexGrowFactors = 0,
      totalFlexShrinkScaledFactors = 0, relativeChildren = []\<rparr>"
  have "endOfLineIndex ?init < endOfLineIndex line"
    unfolding 2(2) using 2(1) by (intro layoutNodeImpl_step4_progress) simp_all
  then show ?case using 2(1) by simp
qed

text \<open>
  Step 8. The inner loop that computes the height of line \<open>i\<close> and finds its end runs
  over the indices from \<^verbatim>\<open>startIndex\<close> to \<^verbatim>\<open>childCount\<close>; the state is the value of \<^verbatim>\<open>ii\<close>
  on leaving the loop and \<^verbatim>\<open>lineHeight\<close>.
\<close>

fun layoutNodeImpl_step8_lineHeight ::
  "CSSFlexDirection \<Rightarrow> CSSNode list \<Rightarrow> nat \<Rightarrow> nat list \<Rightarrow> nat \<times> cfloat \<Rightarrow> nat \<times> cfloat" where
  "layoutNodeImpl_step8_lineHeight crossAxis cs i [] st = st"
| "layoutNodeImpl_step8_lineHeight crossAxis cs i (ii # rest) st =
     (let child = cs ! ii;
          lineHeight = snd st
      in if positionType (style child) = CSSPositionTypeRelative then
           (if lineIndex child \<noteq> i then (ii, lineHeight)
            else
              layoutNodeImpl_step8_lineHeight crossAxis cs i rest
                (Suc ii,
                 if isLayoutDimDefined child crossAxis
                 then fmaxf lineHeight
                        (measuredDimensions (layout child) (dim_axis crossAxis) +
                         getMarginAxis child crossAxis)
                 else lineHeight))
         else layoutNodeImpl_step8_lineHeight crossAxis cs i rest (Suc ii, lineHeight))"

text \<open>The \<^verbatim>\<open>switch (getAlignItem(node, child))\<close> of step 8, for the child at index \<open>ii\<close>.\<close>

definition layoutNodeImpl_step8_align ::
  "CSSNode \<Rightarrow> CSSFlexDirection \<Rightarrow> cfloat \<Rightarrow> cfloat \<Rightarrow> nat \<Rightarrow> CSSNode list \<Rightarrow> CSSNode list" where
  "layoutNodeImpl_step8_align node crossAxis currentLead lineHeight ii cs =
     (let child = cs ! ii
      in if positionType (style child) = CSSPositionTypeRelative then
           (case getAlignItem node child of
              CSSAlignFlexStart \<Rightarrow>
                cs[ii := layoutPosition_set (pos crossAxis)
                           (currentLead + getLeadingMargin child crossAxis) child]
            | CSSAlignFlexEnd \<Rightarrow>
                cs[ii := layoutPosition_set (pos crossAxis)
                           (currentLead + lineHeight - getTrailingMargin child crossAxis -
                            measuredDimensions (layout child) (dim_axis crossAxis)) child]
            | CSSAlignCenter \<Rightarrow>
                (let childHeight = measuredDimensions (layout child) (dim_axis crossAxis)
                 in cs[ii := layoutPosition_set (pos crossAxis)
                              (currentLead + (lineHeight - childHeight) / Finite 2) child])
            | CSSAlignStretch \<Rightarrow>
                cs[ii := layoutPosition_set (pos crossAxis)
                           (currentLead + getLeadingMargin child crossAxis) child]
            | CSSAlignAuto \<Rightarrow> cs)
         else cs)"

text \<open>The body of the loop over the lines of step 8, on \<^verbatim>\<open>(endIndex, currentLead, children)\<close>.\<close>

definition layoutNodeImpl_step8_line ::
  "CSSNode \<Rightarrow> CSSFlexDirection \<Rightarrow> bool \<Rightarrow> cfloat \<Rightarrow> nat \<Rightarrow> nat \<Rightarrow> nat \<times> cfloat \<times> CSSNode list \<Rightarrow>
   nat \<times> cfloat \<times> CSSNode list" where
  "layoutNodeImpl_step8_line node crossAxis performLayout crossDimLead childCount i st =
     (case st of (endIndex, currentLead, cs) \<Rightarrow>
       (let startIndex = endIndex;
            lineHeight = 0;
            (endIndex, lineHeight) =
              layoutNodeImpl_step8_lineHeight crossAxis cs i [startIndex..<childCount]
                (startIndex, lineHeight);
            lineHeight = lineHeight + crossDimLead;
            cs = (if performLayout
                  then fold (layoutNodeImpl_step8_align node crossAxis currentLead lineHeight)
                            [startIndex..<endIndex] cs
                  else cs)
        in (endIndex, currentLead + lineHeight, cs)))"

definition layoutNodeImpl_step8 ::
  "CSSNode \<Rightarrow> CSSFlexDirection \<Rightarrow> bool \<Rightarrow> cfloat \<Rightarrow> nat \<Rightarrow> cfloat \<Rightarrow> nat \<Rightarrow> CSSNode list \<Rightarrow>
   CSSNode list" where
  "layoutNodeImpl_step8 node crossAxis performLayout availableInnerCrossDim lineCount
     totalLineCrossDim childCount cs =
     (if 1 < lineCount \<and> performLayout \<and> \<not> CSSValueIsUndefined availableInnerCrossDim then
        (let leadingPaddingAndBorderCross = getLeadingPaddingAndBorder node crossAxis;
             remainingAlignContentDim = availableInnerCrossDim - totalLineCrossDim;
             crossDimLead = 0;
             currentLead = leadingPaddingAndBorderCross;
             (currentLead, crossDimLead) =
               (case alignContent (style node) of
                  CSSAlignFlexEnd \<Rightarrow> (currentLead + remainingAlignContentDim, crossDimLead)
                | CSSAlignCenter \<Rightarrow>
                    (currentLead + remainingAlignContentDim / Finite 2, crossDimLead)
                | CSSAlignStretch \<Rightarrow>
                    (currentLead,
                     if totalLineCrossDim < availableInnerCrossDim
                     then remainingAlignContentDim / Finite (real lineCount)
                     else crossDimLead)
                | CSSAlignAuto \<Rightarrow> (currentLead, crossDimLead)
                | CSSAlignFlexStart \<Rightarrow> (currentLead, crossDimLead));
             endIndex = 0;
             (endIndex, currentLead, cs) =
               fold (layoutNodeImpl_step8_line node crossAxis performLayout crossDimLead childCount)
                    [0..<lineCount] (endIndex, currentLead, cs)
         in cs)
      else cs)"

text \<open>Step 9: the measured dimensions of the node.\<close>

definition layoutNodeImpl_step9 ::
  "CSSNode \<Rightarrow> cfloat \<Rightarrow> cfloat \<Rightarrow> CSSDirection \<Rightarrow> CSSMeasureMode \<Rightarrow> CSSMeasureMode \<Rightarrow> cfloat \<Rightarrow>
   cfloat \<Rightarrow> CSSNode" where
  "layoutNodeImpl_step9 node availableWidth' availableHeight' direction' widthMeasureMode'
     heightMeasureMode' maxLineMainDim totalLineCrossDim =
     (let paddingAndBorderAxisRow = getPaddingAndBorderAxis node CSSFlexDirectionRow;
          paddingAndBorderAxisColumn = getPaddingAndBorderAxis node CSSFlexDirectionColumn;
          marginAxisRow = getMarginAxis node CSSFlexDirectionRow;
          marginAxisColumn = getMarginAxis node CSSFlexDirectionColumn;
          mainAxis = resolveAxis (flexDirection (style node)) direction';
          crossAxis = getCrossFlexDirection mainAxis direction';
          isMainAxisRow = isRowDirection mainAxis;
          paddingAndBorderAxisMain = getPaddingAndBorderAxis node mainAxis;
          paddingAndBorderAxisCross = getPaddingAndBorderAxis node crossAxis;
          measureModeMainDim = (if isMainAxisRow then widthMeasureMode' else heightMeasureMode');
          measureModeCrossDim = (if isMainAxisRow then heightMeasureMode' else widthMeasureMode');
          availableInnerWidth = availableWidth' - marginAxisRow - paddingAndBorderAxisRow;
          availableInnerHeight = availableHeight' - marginAxisColumn - paddingAndBorderAxisColumn;
          availableInnerMainDim = (if isMainAxisRow then availableInnerWidth else availableInnerHeight);
          availableInnerCrossDim = (if isMainAxisRow then availableInnerHeight else availableInnerWidth);
          node = measuredDimensions_set CSSDimensionWidth
                   (boundAxis node CSSFlexDirectionRow (availableWidth' - marginAxisRow)) node;
          node = measuredDimensions_set CSSDimensionHeight
                   (boundAxis node CSSFlexDirectionColumn (availableHeight' - marginAxisColumn)) node;
          node =
            (if measureModeMainDim = CSSMeasureModeUndefined then
               measuredDimensions_set (dim_axis mainAxis)
                 (boundAxis node mainAxis maxLineMainDim) node
             else if measureModeMainDim = CSSMeasureModeAtMost then
               measuredDimensions_set (dim_axis mainAxis)
                 (fmaxf (fminf (availableInnerMainDim + paddingAndBorderAxisMain)
                               (boundAxisWithinMinAndMax node mainAxis maxLineMainDim))
                        paddingAndBorderAxisMain) node
             else node);
          node =
            (if measureModeCrossDim = CSSMeasureModeUndefined then
               measuredDimensions_set (dim_axis crossAxis)
                 (boundAxis node crossAxis (totalLineCrossDim + paddingAndBorderAxisCross)) node
             else if measureModeCrossDim = CSSMeasureModeAtMost then
               measuredDimensions_set (dim_axis crossAxis)
                 (fmaxf (fminf (availableInnerCrossDim + paddingAndBorderAxisCross)
                               (boundAxisWithinMinAndMax node crossAxis
                                  (totalLineCrossDim + paddingAndBorderAxisCross)))
                        paddingAndBorderAxisCross) node
             else node)
      in node)"

text \<open>
  Step 11. The source computes \<^verbatim>\<open>needsCrossTrailingPos\<close> as
  \<^verbatim>\<open>CSSFlexDirectionRowReverse || crossAxis == CSSFlexDirectionColumnReverse\<close>: the first
  operand is the enumeration constant itself, true when its value is not 0.
\<close>

definition layoutNodeImpl_step11_child ::
  "CSSNode \<Rightarrow> CSSFlexDirection \<Rightarrow> CSSFlexDirection \<Rightarrow> bool \<Rightarrow> bool \<Rightarrow> nat \<Rightarrow> CSSNode list \<Rightarrow>
   CSSNode list" where
  "layoutNodeImpl_step11_child node mainAxis crossAxis needsMainTrailingPos needsCrossTrailingPos
     i cs =
     (let child = cs ! i;
          child = (if needsMainTrailingPos
                   then setTrailingPosition node child mainAxis else child);
          child = (if needsCrossTrailingPos
                   then setTrailingPosition node child crossAxis else child)
      in cs[i := child])"

definition layoutNodeImpl_step11 ::
  "CSSNode \<Rightarrow> CSSFlexDirection \<Rightarrow> CSSFlexDirection \<Rightarrow> CSSNode list \<Rightarrow> CSSNode list" where
  "layoutNodeImpl_step11 node mainAxis crossAxis cs =
     (let childCount = length cs;
          needsMainTrailingPos =
            (mainAxis = CSSFlexDirectionRowReverse \<or> mainAxis = CSSFlexDirectionColumnReverse);
          needsCrossTrailingPos =
            (CSSFlexDirection_value CSSFlexDirectionRowReverse \<noteq> 0 \<or>
             crossAxis = CSSFlexDirectionColumnReverse)
      in if needsMainTrailingPos \<or> needsCrossTrailingPos then
           fold (layoutNodeImpl_step11_child node mainAxis crossAxis needsMainTrailingPos
                   needsCrossTrailingPos)
                [0..<childCount] cs
         else cs)"

text \<open>Step 10: the body of the loop over the absolutely positioned children.\<close>

definition layoutNodeImpl_step10 ::
  "layoutFn \<Rightarrow> CSSNode \<Rightarrow> cfloat \<Rightarrow> CSSMeasureMode \<Rightarrow> CSSDirection \<Rightarrow> nat \<Rightarrow> CSSNode list \<Rightarrow>
   CSSNode list option" where
  "layoutNodeImpl_step10 layoutNodeInternal' node availableInnerWidth widthMeasureMode' direction'
     idx cs =
     do {
       currentAbsoluteChild \<leftarrow>
         absoluteLayoutChild layoutNodeInternal' node (cs ! idx) availableInnerWidth
           widthMeasureMode' direction';
       Some (cs[idx := currentAbsoluteChild])
     }"

text \<open>Steps 1 to 11 of \<^verbatim>\<open>layoutNodeImpl\<close>, for a node with children.\<close>

definition layoutNodeImpl_flex ::
  "layoutFn \<Rightarrow> CSSNode \<Rightarrow> cfloat \<Rightarrow> cfloat \<Rightarrow> CSSDirection \<Rightarrow> CSSMeasureMode \<Rightarrow> CSSMeasureMode \<Rightarrow>
   bool \<Rightarrow> CSSNode option" where
  "layoutNodeImpl_flex layoutNodeInternal' node availableWidth' availableHeight' direction'
     widthMeasureMode' heightMeasureMode' performLayout =
     (let childCount = length (children node);
          paddingAndBorderAxisRow = getPaddingAndBorderAxis node CSSFlexDirectionRow;
          paddingAndBorderAxisColumn = getPaddingAndBorderAxis node CSSFlexDirectionColumn;
          marginAxisRow = getMarginAxis node CSSFlexDirectionRow;
          marginAxisColumn = getMarginAxis node CSSFlexDirectionColumn;
          mainAxis = resolveAxis (flexDirection (style node)) direction';
          crossAxis = getCrossFlexDirection mainAxis direction';
          isMainAxisRow = isRowDirection mainAxis;
          availableInnerWidth = availableWidth' - marginAxisRow - paddingAndBorderAxisRow;
          availableInnerHeight = availableHeight' - marginAxisColumn - paddingAndBorderAxisColumn;
          availableInnerCrossDim = (if isMainAxisRow then availableInnerHeight else availableInnerWidth)
      in do {
           (cs, absoluteChildren) \<leftarrow>
             forEachM (layoutNodeImpl_step3 layoutNodeInternal' node availableInnerWidth
                         widthMeasureMode' availableInnerHeight heightMeasureMode' direction'
                         performLayout)
                      [0..<childCount] (children node, []);
           (cs, lineCount, totalLineCrossDim, maxLineMainDim) \<leftarrow>
             layoutNodeImpl_lines layoutNodeInternal' node availableWidth' availableHeight'
               direction' widthMeasureMode' heightMeasureMode' performLayout childCount 0 0 0 0 cs;
           let cs = layoutNodeImpl_step8 node crossAxis performLayout availableInnerCrossDim
                      lineCount totalLineCrossDim childCount cs;
           let node = layoutNodeImpl_step9 node availableWidth' availableHeight' direction'
                        widthMeasureMode' heightMeasureMode' maxLineMainDim totalLineCrossDim;
           cs \<leftarrow>
             (if performLayout then do {
                cs \<leftarrow> forEachM
                        (layoutNodeImpl_step10 layoutNodeInternal' node availableInnerWidth
                           widthMeasureMode' direction')
                        absoluteChildren cs;
                Some (layoutNodeImpl_step11 node mainAxis crossAxis cs)
              }
              else Some cs);
           Some (children_update (\<lambda>_. cs) node)
         })"

text \<open>
  \<^verbatim>\<open>layoutNodeImpl\<close>. The two \<^verbatim>\<open>CSS_ASSERT\<close>s come first; \<^verbatim>\<open>node->measure &&
  CSSNodeChildCount(node) == 0\<close> selects the measure function of a childless node.
\<close>

definition layoutNodeImpl ::
  "layoutFn \<Rightarrow> CSSNode \<Rightarrow> cfloat \<Rightarrow> cfloat \<Rightarrow> CSSDirection \<Rightarrow> CSSMeasureMode \<Rightarrow> CSSMeasureMode \<Rightarrow>
   bool \<Rightarrow> CSSNode option" where
  "layoutNodeImpl layoutNodeInternal' node availableWidth' availableHeight' parentDirection
     widthMeasureMode' heightMeasureMode' performLayout =
     (if CSSValueIsUndefined availableWidth' \<and> widthMeasureMode' \<noteq> CSSMeasureModeUndefined then None
      else if CSSValueIsUndefined availableHeight' \<and> heightMeasureMode' \<noteq> CSSMeasureModeUndefined
      then None
      else
        (let direction' = resolveDirection node parentDirection;
             node = layout_update (\<lambda>l. l\<lparr>CSSLayout.direction := direction'\<rparr>) node
         in case (if CSSNodeChildCount node = 0 then measure_fn node else None) of
              Some measure' \<Rightarrow>
                Some (layoutNodeImpl_measure measure' node availableWidth' availableHeight'
                        widthMeasureMode' heightMeasureMode')
            | None \<Rightarrow>
                (let childCount = length (children node)
                 in if childCount = 0 then
                      Some (layoutNodeImpl_empty node availableWidth' availableHeight'
                              widthMeasureMode' heightMeasureMode')
                    else
                      (case (if \<not> performLayout
                             then layoutNodeImpl_measureOnly node availableWidth' availableHeight'
                                    widthMeasureMode' heightMeasureMode'
                             else None) of
                         Some node \<Rightarrow> Some node
                       | None \<Rightarrow>
                           layoutNodeImpl_flex layoutNodeInternal' node availableWidth'
                             availableHeight' direction' widthMeasureMode' heightMeasureMode'
                             performLayout))))"

section \<open>The cache-guarded wrapper and the driver\<close>

text \<open>
  \<^verbatim>\<open>layoutNodeInternal\<close>, in its parts. The global \<^verbatim>\<open>gCurrentGenerationCount\<close> is a
  parameter; \<^verbatim>\<open>gDepth\<close> and the printing under \<^verbatim>\<open>gPrintChanges\<close> are left out.
\<close>

definition needToVisitNode :: "32 word \<Rightarrow> CSSNode \<Rightarrow> CSSDirection \<Rightarrow> bool" where
  "needToVisitNode gCurrentGenerationCount node parentDirection =
     ((isDirty node \<and> generationCount (layout node) \<noteq> gCurrentGenerationCount) \<or>
      lastParentDirection (layout node) \<noteq> Some parentDirection)"

text \<open>The first statements of \<^verbatim>\<open>layoutNodeInternal\<close>, up to the end of
  \<^verbatim>\<open>if (needToVisitNode) { ... }\<close>.\<close>

definition layoutNodeInternal_entry :: "32 word \<Rightarrow> CSSNode \<Rightarrow> CSSDirection \<Rightarrow> CSSNode" where
  "layoutNodeInternal_entry gCurrentGenerationCount node parentDirection =
     (if needToVisitNode gCurrentGenerationCount node parentDirection then
        layout_update
          (\<lambda>l. l\<lparr>nextCachedMeasurementsIndex := 0,
                  cachedLayout := (cachedLayout l)\<lparr>widthMeasureMode := None,
                                                    heightMeasureMode := None\<rparr>\<rparr>) node
      else node)"

text \<open>
  The pointer \<^verbatim>\<open>cachedResults\<close>: \<^verbatim>\<open>NULL\<close> is \<open>None\<close>; otherwise it points to
  \<^verbatim>\<open>layout->cachedLayout\<close> or to an entry of \<^verbatim>\<open>layout->cachedMeasurements\<close>.
\<close>

datatype cachedResultsRef = CachedLayoutRef | CachedMeasurementRef nat

definition cachedResults_deref :: "CSSLayout \<Rightarrow> cachedResultsRef \<Rightarrow> CSSCachedMeasurement" where
  "cachedResults_deref l r =
     (case r of CachedLayoutRef \<Rightarrow> cachedLayout l
              | CachedMeasurementRef i \<Rightarrow> cachedMeasurements l ! i)"

text \<open>
  The search for cached results. Of the pair that \<open>canUseCachedMeasurement\<close> returns only
  the result is read: the entry was passed by value. The two tests on entry \<open>i\<close> of
  \<^verbatim>\<open>cachedMeasurements\<close> are the conditions of the two \<^verbatim>\<open>for\<close> loops, which \<^verbatim>\<open>break\<close> at the first
  index below \<^verbatim>\<open>nextCachedMeasurementsIndex\<close> that passes.
\<close>

definition layoutNodeInternal_canUseMeasurement ::
  "CSSNode \<Rightarrow> cfloat \<Rightarrow> cfloat \<Rightarrow> CSSMeasureMode \<Rightarrow> CSSMeasureMode \<Rightarrow> nat \<Rightarrow> bool" where
  "layoutNodeInternal_canUseMeasurement node availableWidth' availableHeight' widthMeasureMode'
     heightMeasureMode' i =
     fst (canUseCachedMeasurement (isTextNode node) availableWidth' availableHeight'
            (getMarginAxis node CSSFlexDirectionRow) (getMarginAxis node CSSFlexDirectionColumn)
            widthMeasureMode' heightMeasureMode' (cachedMeasurements (layout node) ! i))"

definition layoutNodeInternal_sameMeasurement ::
  "CSSNode \<Rightarrow> cfloat \<Rightarrow> cfloat \<Rightarrow> CSSMeasureMode \<Rightarrow> CSSMeasureMode \<Rightarrow> nat \<Rightarrow> bool" where
  "layoutNodeInternal_sameMeasurement node availableWidth' availableHeight' widthMeasureMode'
     heightMeasureMode' i =
     (eq (availableWidth (cachedMeasurements (layout node) ! i)) availableWidth' \<and>
      eq (availableHeight (cachedMeasurements (layout node) ! i)) availableHeight' \<and>
      widthMeasureMode (cachedMeasurements (layout node) ! i) = Some widthMeasureMode' \<and>
      heightMeasureMode (cachedMeasurements (layout node) ! i) = Some heightMeasureMode')"

definition layoutNodeInternal_findCached ::
  "CSSNode \<Rightarrow> cfloat \<Rightarrow> cfloat \<Rightarrow> CSSMeasureMode \<Rightarrow> CSSMeasureMode \<Rightarrow> bool \<Rightarrow>
   cachedResultsRef option" where
  "layoutNodeInternal_findCached node availableWidth' availableHeight' widthMeasureMode'
     heightMeasureMode' performLayout =
     (let layout' = layout node
      in if measure_fn node \<noteq> None \<and> CSSNodeChildCount node = 0 then
           (let marginAxisRow = getMarginAxis node CSSFlexDirectionRow;
                marginAxisColumn = getMarginAxis node CSSFlexDirectionColumn
            in if fst (canUseCachedMeasurement (isTextNode node) availableWidth' availableHeight'
                         marginAxisRow marginAxisColumn widthMeasureMode' heightMeasureMode'
                         (cachedLayout layout'))
               then Some CachedLayoutRef
               else
                 map_option CachedMeasurementRef
                   (find (layoutNodeInternal_canUseMeasurement node availableWidth' availableHeight'
                            widthMeasureMode' heightMeasureMode')
                         [0..<nextCachedMeasurementsIndex layout']))
         else if performLayout then
           (if eq (availableWidth (cachedLayout layout')) availableWidth' \<and>
               eq (availableHeight (cachedLayout layout')) availableHeight' \<and>
               widthMeasureMode (cachedLayout layout') = Some widthMeasureMode' \<and>
               heightMeasureMode (cachedLayout layout') = Some heightMeasureMode'
            then Some CachedLayoutRef
            else None)
         else
           map_option CachedMeasurementRef
             (find (layoutNodeInternal_sameMeasurement node availableWidth' availableHeight'
                      widthMeasureMode' heightMeasureMode')
                   [0..<nextCachedMeasurementsIndex layout']))"

text \<open>The block \<^verbatim>\<open>if (cachedResults == NULL) { ... }\<close> that stores a new cache entry.\<close>

definition layoutNodeInternal_store ::
  "CSSNode \<Rightarrow> cfloat \<Rightarrow> cfloat \<Rightarrow> CSSMeasureMode \<Rightarrow> CSSMeasureMode \<Rightarrow> bool \<Rightarrow> CSSNode" where
  "layoutNodeInternal_store node availableWidth' availableHeight' widthMeasureMode'
     heightMeasureMode' performLayout =
     (let node =
            (if nextCachedMeasurementsIndex (layout node) = CSS_MAX_CACHED_RESULT_COUNT
             then layout_update (\<lambda>l. l\<lparr>nextCachedMeasurementsIndex := 0\<rparr>) node
             else node);
          newCacheEntry =
            \<lparr>availableWidth = availableWidth', availableHeight = availableHeight',
             widthMeasureMode = Some widthMeasureMode',
             heightMeasureMode = Some heightMeasureMode',
             computedWidth = measuredDimensions (layout node) CSSDimensionWidth,
             computedHeight = measuredDimensions (layout node) CSSDimensionHeight\<rparr>
      in if performLayout then
           layout_update (\<lambda>l. l\<lparr>cachedLayout := newCacheEntry\<rparr>) node
         else
           layout_update
             (\<lambda>l. l\<lparr>cachedMeasurements :=
                       (cachedMeasurements l)[nextCachedMeasurementsIndex l := newCacheEntry],
                     nextCachedMeasurementsIndex := Suc (nextCachedMeasurementsIndex l)\<rparr>) node)"

text \<open>
  The body of \<^verbatim>\<open>layoutNodeInternal\<close>, with the recursive call as a parameter. It returns
  the \<^verbatim>\<open>bool\<close> of the source and the node.
\<close>

definition layoutNodeInternal_body ::
  "layoutFn \<Rightarrow> 32 word \<Rightarrow> CSSNode \<Rightarrow> cfloat \<Rightarrow> cfloat \<Rightarrow> CSSDirection \<Rightarrow> CSSMeasureMode \<Rightarrow>
   CSSMeasureMode \<Rightarrow> bool \<Rightarrow> (bool \<times> CSSNode) option" where
  "layoutNodeInternal_body layoutNodeInternal' gCurrentGenerationCount node availableWidth'
     availableHeight' parentDirection widthMeasureMode' heightMeasureMode' performLayout =
     (let needToVisitNode' = needToVisitNode gCurrentGenerationCount node parentDirection;
          node = layoutNodeInternal_entry gCurrentGenerationCount node parentDirection;
          cachedResults =
            layoutNodeInternal_findCached node availableWidth' availableHeight' widthMeasureMode'
              heightMeasureMode' performLayout
      in do {
           node \<leftarrow>
             (case (if \<not> needToVisitNode' then cachedResults else None) of
                Some r \<Rightarrow>
                  Some (layout_update
                          (\<lambda>l. l\<lparr>measuredDimensions := (measuredDimensions l)
                                  (CSSDimensionWidth := computedWidth (cachedResults_deref l r),
                                   CSSDimensionHeight := computedHeight (cachedResults_deref l r))\<rparr>)
                          node)
              | None \<Rightarrow> do {
                  node \<leftarrow> layoutNodeImpl layoutNodeInternal' node availableWidth' availableHeight'
                            parentDirection widthMeasureMode' heightMeasureMode' performLayout;
                  let node = layout_update (\<lambda>l. l\<lparr>lastParentDirection := Some parentDirection\<rparr>) node;
                  Some (if cachedResults = None
                        then layoutNodeInternal_store node availableWidth' availableHeight'
                               widthMeasureMode' heightMeasureMode' performLayout
                        else node)
                });
           let node =
                 (if performLayout then
                    isDirty_update (\<lambda>_. False)
                      (hasNewLayout_update (\<lambda>_. True)
                         (layout_update
                            (\<lambda>l. l\<lparr>CSSLayout.dimensions := (CSSLayout.dimensions l)
                                    (CSSDimensionWidth := measuredDimensions l CSSDimensionWidth,
                                     CSSDimensionHeight := measuredDimensions l CSSDimensionHeight)\<rparr>)
                            node))
                  else node);
           let node = layout_update (\<lambda>l. l\<lparr>generationCount := gCurrentGenerationCount\<rparr>) node;
           Some (needToVisitNode' \<or> cachedResults = None, node)
         })"

text \<open>
  A call of \<^verbatim>\<open>layoutNodeInternal\<close> from \<^verbatim>\<open>layoutNodeImpl\<close>, which does not read the
  returned \<^verbatim>\<open>bool\<close>.
\<close>

definition layoutNodeInternal_call ::
  "(CSSNode \<Rightarrow> cfloat \<Rightarrow> cfloat \<Rightarrow> CSSDirection \<Rightarrow> CSSMeasureMode \<Rightarrow> CSSMeasureMode \<Rightarrow> bool \<Rightarrow>
    (bool \<times> CSSNode) option) \<Rightarrow> layoutFn" where
  "layoutNodeInternal_call f node availableWidth' availableHeight' parentDirection
     widthMeasureMode' heightMeasureMode' performLayout =
     map_option snd
       (f node availableWidth' availableHeight' parentDirection widthMeasureMode'
          heightMeasureMode' performLayout)"

text \<open>
  \<^verbatim>\<open>layoutNodeInternal\<close>. The first argument bounds the depth of the recursion: a call
  with bound \<open>Suc n\<close> makes its recursive calls with bound \<open>n\<close>, and with bound 0 there is no
  result. A tree of height \<open>h\<close> needs the bound \<open>h\<close>.
\<close>

primrec layoutNodeInternal ::
  "nat \<Rightarrow> 32 word \<Rightarrow> CSSNode \<Rightarrow> cfloat \<Rightarrow> cfloat \<Rightarrow> CSSDirection \<Rightarrow> CSSMeasureMode \<Rightarrow>
   CSSMeasureMode \<Rightarrow> bool \<Rightarrow> (bool \<times> CSSNode) option" where
  "layoutNodeInternal 0 gCurrentGenerationCount =
     (\<lambda>node availableWidth' availableHeight' parentDirection widthMeasureMode' heightMeasureMode'
        performLayout. None)"
| "layoutNodeInternal (Suc n) gCurrentGenerationCount =
     layoutNodeInternal_body
       (layoutNodeInternal_call (layoutNodeInternal n gCurrentGenerationCount))
       gCurrentGenerationCount"

fun CSSNodeHeight :: "CSSNode \<Rightarrow> nat" where
  "CSSNodeHeight (CSSNode s l li h t cs d m) = Suc (fold max (map CSSNodeHeight cs) 0)"

text \<open>
  \<^verbatim>\<open>CSSNodeCalculateLayout\<close>, on the global counter and the tree; returns both. Each
  \<^verbatim>\<open>if\<close> chain assigns a size and its mode: it is the pair \<open>widthAndMode\<close>
  (\<open>heightAndMode\<close>) of the two. The recursion is bounded by the height of the tree.
\<close>

definition CSSNodeCalculateLayout ::
  "32 word \<Rightarrow> CSSNode \<Rightarrow> cfloat \<Rightarrow> cfloat \<Rightarrow> CSSDirection \<Rightarrow> (32 word \<times> CSSNode) option" where
  "CSSNodeCalculateLayout gCurrentGenerationCount node availableWidth' availableHeight'
     parentDirection =
     (let gCurrentGenerationCount = gCurrentGenerationCount + 1;
          width' = availableWidth';
          height' = availableHeight';
          widthMeasureMode' = CSSMeasureModeUndefined;
          heightMeasureMode' = CSSMeasureModeUndefined;
          widthAndMode =
            (if \<not> CSSValueIsUndefined width' then (width', CSSMeasureModeExactly)
             else if isStyleDimDefined node CSSFlexDirectionRow then
               (CSSStyle.dimensions (style node) (dim_axis CSSFlexDirectionRow) +
                  getMarginAxis node CSSFlexDirectionRow,
                CSSMeasureModeExactly)
             else if 0 \<le> maxDimensions (style node) CSSDimensionWidth then
               (maxDimensions (style node) CSSDimensionWidth, CSSMeasureModeAtMost)
             else (width', widthMeasureMode'));
          width' = fst widthAndMode;
          widthMeasureMode' = snd widthAndMode;
          heightAndMode =
            (if \<not> CSSValueIsUndefined height' then (height', CSSMeasureModeExactly)
             else if isStyleDimDefined node CSSFlexDirectionColumn then
               (CSSStyle.dimensions (style node) (dim_axis CSSFlexDirectionColumn) +
                  getMarginAxis node CSSFlexDirectionColumn,
                CSSMeasureModeExactly)
             else if 0 \<le> maxDimensions (style node) CSSDimensionHeight then
               (maxDimensions (style node) CSSDimensionHeight, CSSMeasureModeAtMost)
             else (height', heightMeasureMode'));
          height' = fst heightAndMode;
          heightMeasureMode' = snd heightAndMode
      in do {
           (visited, node) \<leftarrow>
             layoutNodeInternal (CSSNodeHeight node) gCurrentGenerationCount node width' height'
               parentDirection widthMeasureMode' heightMeasureMode' True;
           Some (gCurrentGenerationCount,
                 if visited then setPosition node (CSSLayout.direction (layout node)) else node)
         })"

section \<open>Example trees\<close>

text \<open>
  The style and the layout of a node as \<^verbatim>\<open>CSSNodeNew\<close> returns it, and the trees of the
  examples below, built with the public setters.
\<close>

definition styleNew :: CSSStyle where
  "styleNew = style CSSNodeNew"

definition layoutNew :: CSSLayout where
  "layoutNew = layout CSSNodeNew"

text \<open>A node of style width 50 and height 20.\<close>

definition child50x20 :: CSSNode where
  "child50x20 =
     CSSNodeStyleSetHeight (CSSNodeStyleSetWidth CSSNodeNew [] (Finite 50)) [] (Finite 20)"

text \<open>
  A container of direction \<^verbatim>\<open>Row\<close>, \<^verbatim>\<open>justifyContent = SpaceBetween\<close>, width 300 and
  height 100, with three children of 50 by 20.
\<close>

definition rowSpaceBetween :: CSSNode where
  "rowSpaceBetween =
     (let r = CSSNodeNew;
          r = CSSNodeStyleSetFlexDirection r [] CSSFlexDirectionRow;
          r = CSSNodeStyleSetJustifyContent r [] CSSJustifySpaceBetween;
          r = CSSNodeStyleSetWidth r [] (Finite 300);
          r = CSSNodeStyleSetHeight r [] (Finite 100);
          r = CSSNodeInsertChild r [] child50x20 0;
          r = CSSNodeInsertChild r [] child50x20 1;
          r = CSSNodeInsertChild r [] child50x20 2
      in r)"

text \<open>Left, top, width and height of every child of a node, as the layout getters give them.\<close>

definition childBoxes :: "CSSNode \<Rightarrow> (cfloat \<times> cfloat \<times> cfloat \<times> cfloat) list" where
  "childBoxes node =
     map (\<lambda>c. (CSSNodeLayoutGetLeft c, CSSNodeLayoutGetTop c,
               CSSNodeLayoutGetWidth c, CSSNodeLayoutGetHeight c)) (children node)"

text \<open>
  Leaves with a measure function (which answers 100 by 50 whatever it is asked): one with
  \<^verbatim>\<open>minWidth = 10\<close>, one with a left padding of 10, and one that is a text node.
\<close>

definition measureLeaf :: CSSNode where
  "measureLeaf =
     CSSNodeSetMeasureFunc CSSNodeNew
       (Some (\<lambda>w wm h hm. \<lparr>width = Finite 100, height = Finite 50\<rparr>))"

definition minWidthLeaf :: CSSNode where
  "minWidthLeaf = CSSNodeStyleSetMinWidth measureLeaf [] (Finite 10)"

definition paddedLeaf :: CSSNode where
  "paddedLeaf = CSSNodeStyleSetPadding measureLeaf [] CSSEdgeLeft (Finite 10)"

definition textLeaf :: CSSNode where
  "textLeaf = CSSNodeSetIsTextnode measureLeaf True"

section \<open>Properties\<close>

subsection \<open>Field access after an update\<close>

lemma style_children_update [simp]: "style (children_update f n) = style n"
  by (cases n) simp
lemma children_children_update [simp]: "children (children_update f n) = f (children n)"
  by (cases n) simp
lemma isDirty_children_update [simp]: "isDirty (children_update f n) = isDirty n"
  by (cases n) simp
lemma sel_isDirty_update [simp]:
  "style (isDirty_update f n) = style n" "children (isDirty_update f n) = children n"
  "isDirty (isDirty_update f n) = f (isDirty n)" "layout (isDirty_update f n) = layout n"
  by (cases n; simp)+
lemma sel_layout_update [simp]:
  "style (layout_update f n) = style n" "children (layout_update f n) = children n"
  "isDirty (layout_update f n) = isDirty n" "layout (layout_update f n) = f (layout n)"
  by (cases n; simp)+
lemma sel_style_update [simp]:
  "style (style_update f n) = f (style n)" "children (style_update f n) = children n"
  "isDirty (style_update f n) = isDirty n" "layout (style_update f n) = layout n"
  by (cases n; simp)+








subsection \<open>The flex shorthand\<close>



subsection \<open>Evaluating a layout\<close>

text \<open>
  A layout of a given tree is computed by rewriting with the defining equations. The
  congruence rules keep the rewriting in the order of evaluation: the bound value of a
  \<open>let\<close> and the first computation of a \<open>do\<close> block before the rest.
\<close>

lemma bind_weak_cong: "m = m' \<Longrightarrow> Option.bind m f = Option.bind m' f"
  by simp

lemmas new_defs = CSSNodeNew_def CSSNodeInit_def calloc_CSSNode_def calloc_CSSStyle_def
  calloc_CSSLayout_def calloc_CSSCachedMeasurement_def CSSUndefined_def Let_def

lemma CSSNodeNew_eq: "CSSNodeNew = CSSNode styleNew layoutNew 0 True False [] False None"
  by (simp add: styleNew_def layoutNew_def new_defs)

lemma styleNew_simps [simp]:
  "CSSStyle.direction styleNew = CSSDirectionInherit"
  "flexDirection styleNew = CSSFlexDirectionColumn"
  "justifyContent styleNew = CSSJustifyFlexStart"
  "alignContent styleNew = CSSAlignFlexStart"
  "alignItems styleNew = CSSAlignStretch"
  "alignSelf styleNew = CSSAlignAuto"
  "positionType styleNew = CSSPositionTypeRelative"
  "flexWrap styleNew = CSSWrapTypeNoWrap"
  "overflow styleNew = CSSOverflowVisible"
  "flexGrow styleNew = Finite 0"
  "flexShrink styleNew = Finite 0"
  "flexBasis styleNew = NaN"
  "margin styleNew e = NaN"
  "CSSStyle.position styleNew e = NaN"
  "padding styleNew e = NaN"
  "border styleNew e = NaN"
  "CSSStyle.dimensions styleNew d = NaN"
  "minDimensions styleNew d = NaN"
  "maxDimensions styleNew d = NaN"
  by (cases d; simp add: styleNew_def new_defs zero_cfloat_def)+

lemma layoutNew_simps [simp]:
  "CSSLayout.position layoutNew e = Finite 0"
  "CSSLayout.dimensions layoutNew d = NaN"
  "CSSLayout.direction layoutNew = CSSDirectionInherit"
  "computedFlexBasis layoutNew = NaN"
  "generationCount layoutNew = 0"
  "lastParentDirection layoutNew = None"
  "nextCachedMeasurementsIndex layoutNew = 0"
  "measuredDimensions layoutNew d = NaN"
  "availableWidth (cachedLayout layoutNew) = Finite 0"
  "availableHeight (cachedLayout layoutNew) = Finite 0"
  "widthMeasureMode (cachedLayout layoutNew) = None"
  "heightMeasureMode (cachedLayout layoutNew) = None"
  "computedWidth (cachedLayout layoutNew) = Finite 0"
  "computedHeight (cachedLayout layoutNew) = Finite 0"
  by (cases d; simp add: layoutNew_def new_defs zero_cfloat_def)+

named_theorems ev \<open>the defining equations used to compute a layout\<close>

lemmas [ev] = CSSUndefined_def zero_cfloat_def CSS_MAX_CACHED_RESULT_COUNT_def
  CSS_NODE_STYLE_PROPERTY_IMPL_Set_def CSS_NODE_STYLE_EDGE_PROPERTY_IMPL_Set_def
  CSSNodeStyleSetFlexBasis_def CSSNodeStyleSetMinWidth_def CSSNodeStyleSetWidth_def
  CSSNodeStyleSetHeight_def CSSNodeStyleSetFlexDirection_def CSSNodeStyleSetJustifyContent_def
  CSSNodeStyleSetPadding_def CSSNodeStyleSetMargin_def CSSNodeSetMeasureFunc_def
  CSSNodeSetIsTextnode_def CSSNodeInsertChild_def CSSNodeListInsert_def
  CSSNodeCalculateLayout_def layoutNodeInternal_body_def needToVisitNode_def
  layoutNodeInternal_entry_def layoutNodeInternal_findCached_def canUseCachedMeasurement_def
  eq_def layoutNodeInternal_store_def layoutNodeInternal_call_def
  layoutNodeInternal_canUseMeasurement_def layoutNodeInternal_sameMeasurement_def
  cachedResults_deref_def CSSNodeChildCount_def
  layoutNodeImpl_def layoutNodeImpl_measure_def layoutNodeImpl_empty_def
  layoutNodeImpl_measureOnly_def layoutNodeImpl_flex_def layoutNodeImpl_step3_def
  computeChildFlexBasis_def computedFlexBasis_set_def layoutNodeImpl_line_def
  layoutNodeImpl_step5_pass1_def layoutNodeImpl_step5_pass2_def layoutNodeImpl_step6_def
  layoutNodeImpl_step6_place_def layoutNodeImpl_step7_def layoutNodeImpl_step8_def
  layoutNodeImpl_step8_line_def layoutNodeImpl_step8_align_def layoutNodeImpl_step9_def
  layoutNodeImpl_step10_def layoutNodeImpl_step11_def layoutNodeImpl_step11_child_def
  layoutNodeImpl_lines.simps absoluteLayoutChild_def
  getMarginAxis_def getLeadingMargin_def getTrailingMargin_def computedEdgeValue_def
  isRowDirection_def isColumnDirection_def boundAxis_def boundAxisWithinMinAndMax_def
  getPaddingAndBorderAxis_def getLeadingPaddingAndBorder_def getTrailingPaddingAndBorder_def
  getLeadingPadding_def getTrailingPadding_def getLeadingBorder_def getTrailingBorder_def
  measuredDimensions_set_def layoutPosition_set_def isStyleDimDefined_def resolveDirection_def
  setPosition_def setTrailingPosition_def resolveAxis_def getCrossFlexDirection_def
  getRelativePosition_def isLeadingPosDefined_def isTrailingPosDefined_def
  getLeadingPosition_def getTrailingPosition_def getAlignItem_def isFlex_def
  getDimWithMargin_def
  CSSNodeLayoutGetWidth_def CSSNodeLayoutGetHeight_def CSSNodeLayoutGetLeft_def
  CSSNodeLayoutGetTop_def CSSNodeLayoutGetRight_def CSSNodeLayoutGetBottom_def
  childBoxes_def rowSpaceBetween_def child50x20_def measureLeaf_def minWidthLeaf_def
  paddedLeaf_def textLeaf_def CSSNodeNew_eq Let_def

subsection \<open>Row, space-between\<close>

text \<open>
  Claim C7. For the container \<open>rowSpaceBetween\<close> (direction \<^verbatim>\<open>Row\<close>,
  \<^verbatim>\<open>justifyContent = SpaceBetween\<close>, width 300, height 100, three relative children of
  style width 50 and height 20 with no flex factors), \<^verbatim>\<open>CSSNodeCalculateLayout\<close> returns,
  and it places the children at (0,0), (125,0) and (250,0), each of size 50 by 20. This
  is so for every value of the generation counter, with no available size given, and for
  the parent directions \<^verbatim>\<open>LTR\<close> and \<^verbatim>\<open>Inherit\<close>.
\<close>

theorem CSSNodeCalculateLayout_row_space_between:
  "(\<exists>g r. CSSNodeCalculateLayout g0 rowSpaceBetween CSSUndefined CSSUndefined CSSDirectionLTR
             = Some (g, r) \<and>
           childBoxes r = [(Finite 0, Finite 0, Finite 50, Finite 20),
                           (Finite 125, Finite 0, Finite 50, Finite 20),
                           (Finite 250, Finite 0, Finite 50, Finite 20)]) \<and>
   (\<exists>g r. CSSNodeCalculateLayout g0 rowSpaceBetween CSSUndefined CSSUndefined CSSDirectionInherit
             = Some (g, r) \<and>
           childBoxes r = [(Finite 0, Finite 0, Finite 50, Finite 20),
                           (Finite 125, Finite 0, Finite 50, Finite 20),
                           (Finite 250, Finite 0, Finite 50, Finite 20)])"
  by (simp add: ev cong: let_weak_cong bind_weak_cong prod.case_cong_weak)

subsection \<open>Trailing positions\<close>

text \<open>
  Step 11 computes \<^verbatim>\<open>needsCrossTrailingPos\<close> from the enumeration constant
  \<^verbatim>\<open>CSSFlexDirectionRowReverse\<close> itself, which is not 0: the trailing position on the cross
  axis is written for every child, whatever the cross axis.
\<close>

lemma layoutNodeImpl_step11_cross_always:
  "layoutNodeImpl_step11 node mainAxis crossAxis cs =
     fold (layoutNodeImpl_step11_child node mainAxis crossAxis
             (mainAxis = CSSFlexDirectionRowReverse \<or> mainAxis = CSSFlexDirectionColumnReverse)
             True)
          [0..<length cs] cs"
  by (simp add: layoutNodeImpl_step11_def Let_def)

text \<open>
  Claim C1 does not hold of the code. In the layout of \<open>rowSpaceBetween\<close> the main axis is
  \<^verbatim>\<open>Row\<close> and the cross axis is \<^verbatim>\<open>Column\<close>, neither of them a reverse direction. The
  trailing position of the children on the main axis (\<^verbatim>\<open>Right\<close>) keeps its initial value
  0, but their trailing position on the cross axis (\<^verbatim>\<open>Bottom\<close>), 0 before the layout, is set
  to \<open>100 - 20 - 0 = 80\<close>.
\<close>

theorem trailing_cross_position_set_without_reverse:
  "\<exists>g r. CSSNodeCalculateLayout g0 rowSpaceBetween CSSUndefined CSSUndefined CSSDirectionLTR
            = Some (g, r) \<and>
     resolveAxis (flexDirection (style r)) CSSDirectionLTR = CSSFlexDirectionRow \<and>
     getCrossFlexDirection (resolveAxis (flexDirection (style r)) CSSDirectionLTR) CSSDirectionLTR
       = CSSFlexDirectionColumn \<and>
     map CSSNodeLayoutGetBottom (children rowSpaceBetween) = [Finite 0, Finite 0, Finite 0] \<and>
     map CSSNodeLayoutGetBottom (children r) = [Finite 80, Finite 80, Finite 80] \<and>
     map CSSNodeLayoutGetRight (children r) = [Finite 0, Finite 0, Finite 0]"
  by (simp add: ev cong: let_weak_cong bind_weak_cong prod.case_cong_weak)

subsection \<open>Invalidation of the caches\<close>

text \<open>
  Claim C2 as stated does not hold: a dirty node is not invalidated when it was already
  visited in the current generation. The measuring call (\<^verbatim>\<open>performLayout = false\<close>) on
  the dirty leaf \<open>minWidthLeaf\<close> in generation 1 leaves the node dirty, with
  \<^verbatim>\<open>generationCount = 1\<close>, \<^verbatim>\<open>lastParentDirection = LTR\<close> and one cached measurement; on
  the next entry in generation 1 with parent direction \<^verbatim>\<open>LTR\<close> the ring cursor stays 1.
\<close>

theorem dirty_node_not_invalidated_in_same_generation:
  "do { (v, n1) \<leftarrow> layoutNodeInternal (Suc 0) 1 minWidthLeaf CSSUndefined CSSUndefined
                       CSSDirectionLTR CSSMeasureModeUndefined CSSMeasureModeUndefined False;
        Some (isDirty n1, lastParentDirection (layout n1), generationCount (layout n1),
              nextCachedMeasurementsIndex (layout n1),
              nextCachedMeasurementsIndex (layout (layoutNodeInternal_entry 1 n1 CSSDirectionLTR))) }
   = Some (True, Some CSSDirectionLTR, 1, 1, 1)"
  by (simp add: ev cong: let_weak_cong bind_weak_cong prod.case_cong_weak)

text \<open>
  The code clears \<^verbatim>\<open>cachedLayout\<close> by setting both of its measure modes to
  \<^verbatim>\<open>(CSSMeasureMode) -1\<close>, a value that no measure mode equals (\<open>None\<close> here). After the
  invalidation the lookup of a node that is not a childless node with a measure function
  finds nothing, whatever the arguments of the call: \<^verbatim>\<open>cachedLayout\<close> matches no mode and
  the ring is empty.
\<close>

lemma invalidated_entry_no_hit:
  "needToVisitNode g node parentDirection \<Longrightarrow>
   \<not> (measure_fn node \<noteq> None \<and> CSSNodeChildCount node = 0) \<Longrightarrow>
   layoutNodeInternal_findCached (layoutNodeInternal_entry g node parentDirection)
     availableWidth' availableHeight' widthMeasureMode' heightMeasureMode' performLayout = None"
  by (cases node)
     (auto simp add: layoutNodeInternal_findCached_def layoutNodeInternal_entry_def
        CSSNodeChildCount_def Let_def)

text \<open>
  Claim C2, amended. On entry to \<^verbatim>\<open>layoutNodeInternal\<close> the caches of the node are
  invalidated (the ring cursor \<^verbatim>\<open>nextCachedMeasurementsIndex\<close> reset to 0 and
  \<^verbatim>\<open>cachedLayout\<close> cleared, its two measure modes set to \<^verbatim>\<open>(CSSMeasureMode) -1\<close>) when the
  node is dirty and its \<^verbatim>\<open>generationCount\<close> differs from the current generation, or when
  its \<^verbatim>\<open>lastParentDirection\<close> differs from the parent direction of the call; under no
  other condition are they invalidated: the node is left as it is.
\<close>

theorem layoutNodeInternal_entry_invalidates:
  "(if (isDirty node \<and> generationCount (layout node) \<noteq> g) \<or>
       lastParentDirection (layout node) \<noteq> Some parentDirection
    then nextCachedMeasurementsIndex (layout (layoutNodeInternal_entry g node parentDirection)) = 0 \<and>
         widthMeasureMode (cachedLayout (layout (layoutNodeInternal_entry g node parentDirection)))
           = None \<and>
         heightMeasureMode (cachedLayout (layout (layoutNodeInternal_entry g node parentDirection)))
           = None
    else layoutNodeInternal_entry g node parentDirection = node)"
  by (simp add: layoutNodeInternal_entry_def needToVisitNode_def)

subsection \<open>Two calls in a row\<close>

text \<open>
  Claim C3 does not hold of the code. For the leaf \<open>minWidthLeaf\<close> (a measure function,
  \<^verbatim>\<open>minWidth = 10\<close>), \<^verbatim>\<open>CSSNodeCalculateLayout\<close> with available width 0 and height 0 gives
  the width 10; the same call again, with no change in between, gives the width 0. The
  first call finds the initial \<^verbatim>\<open>cachedLayout\<close> (computed size 0 by 0) usable for the
  exact size 0 by 0 and so stores no new entry; the second call returns that entry.
\<close>

theorem CSSNodeCalculateLayout_second_call_differs:
  "do { (g1, n1) \<leftarrow> CSSNodeCalculateLayout 0 minWidthLeaf 0 0 CSSDirectionLTR;
        (g2, n2) \<leftarrow> CSSNodeCalculateLayout g1 n1 0 0 CSSDirectionLTR;
        Some (CSSNodeLayoutGetWidth n1, CSSNodeLayoutGetWidth n2) }
   = Some (Finite 10, Finite 0)"
  by (simp add: ev cong: let_weak_cong bind_weak_cong prod.case_cong_weak)

subsection \<open>Setting a style field\<close>

lemma fne_iff: "fne a b \<longleftrightarrow> a = NaN \<or> b = NaN \<or> a \<noteq> b"
  by (cases a; cases b) auto

text \<open>A setter called with a value that \<^verbatim>\<open>!=\<close> finds equal to the field changes nothing.\<close>

lemma setter_equal_value:
  "CSSNodeAt t p = Some n \<Longrightarrow> \<not> ne (instanceName (style n)) v \<Longrightarrow>
   CSS_NODE_STYLE_PROPERTY_IMPL_Set instanceName instanceName_update ne t p v = t"
  by (simp add: CSS_NODE_STYLE_PROPERTY_IMPL_Set_def)

lemma edge_setter_equal_value:
  "CSSNodeAt t p = Some n \<Longrightarrow> \<not> fne (instanceName (style n) edge) v \<Longrightarrow>
   CSS_NODE_STYLE_EDGE_PROPERTY_IMPL_Set instanceName instanceName_update t p edge v = t"
  by (simp add: CSS_NODE_STYLE_EDGE_PROPERTY_IMPL_Set_def)

text \<open>
  Claim C4 does not hold of the code for the undefined value. The fields \<^verbatim>\<open>flexBasis\<close> and
  \<^verbatim>\<open>margin[Left]\<close> of a new node are undefined and the node is not dirty; setting either
  field to the undefined value, its current value, marks the node dirty, because the
  setters compare with \<^verbatim>\<open>!=\<close> and \<^verbatim>\<open>NaN != NaN\<close> holds.
\<close>

theorem setter_undefined_marks_dirty:
  "\<not> isDirty CSSNodeNew \<and>
   flexBasis (style CSSNodeNew) = CSSUndefined \<and>
   isDirty (CSSNodeStyleSetFlexBasis CSSNodeNew [] CSSUndefined) \<and>
   margin (style CSSNodeNew) CSSEdgeLeft = CSSUndefined \<and>
   isDirty (CSSNodeStyleSetMargin CSSNodeNew [] CSSEdgeLeft CSSUndefined)"
  by (simp add: ev)

subsection \<open>The cache hit predicate\<close>

lemma eq_spec_tolerance_equal: "eq a b = spec_tolerance_equal a b"
  by (cases a; cases b; simp add: eq_def spec_tolerance_equal_def)

text \<open>
  Claim C6. \<^verbatim>\<open>canUseCachedMeasurement\<close> accepts a cache entry exactly when height and
  width are both \<^emph>\<open>same\<close>, or one is \<^emph>\<open>same\<close> and the other \<^emph>\<open>valid\<close>, or both are \<^emph>\<open>valid\<close>, or
  one of the heuristics for text nodes applies; here \<^emph>\<open>valid\<close> on an axis is \<open>spec_valid\<close>:
  the prior mode was \<^verbatim>\<open>Undefined\<close>, the new mode is \<^verbatim>\<open>AtMost\<close> and the prior computed size
  is at most the new available size minus the margin, or the new mode is \<^verbatim>\<open>Exactly\<close> and
  the prior computed size is within \<open>1/10000\<close> of the new available size minus the margin
  (both undefined counts as equal).
\<close>

theorem canUseCachedMeasurement_same_or_valid:
  "fst (canUseCachedMeasurement isTextNode' availableWidth' availableHeight' marginRow marginColumn
          widthMeasureMode' heightMeasureMode' c) =
   (let widthSame =
          spec_same (widthMeasureMode c) (availableWidth c) widthMeasureMode' availableWidth';
        heightSame =
          spec_same (heightMeasureMode c) (availableHeight c) heightMeasureMode' availableHeight';
        widthValid =
          spec_valid (widthMeasureMode c) (computedWidth c) widthMeasureMode' availableWidth'
            marginRow;
        heightValid =
          spec_valid (heightMeasureMode c) (computedHeight c) heightMeasureMode' availableHeight'
            marginColumn
    in (heightSame \<and> widthSame) \<or> (widthSame \<and> heightValid) \<or> (heightSame \<and> widthValid) \<or>
       (heightValid \<and> widthValid) \<or>
       (isTextNode' \<and>
        (widthSame \<or>
         (widthMeasureMode c = Some CSSMeasureModeUndefined \<and>
          (widthMeasureMode' = CSSMeasureModeUndefined \<or>
           (widthMeasureMode' = CSSMeasureModeAtMost \<and>
            computedWidth c \<le> availableWidth' - marginRow))))))"
  by (auto simp add: canUseCachedMeasurement_def Let_def spec_same_def spec_valid_def
      eq_spec_tolerance_equal)

subsection \<open>A node and its frame\<close>

lemma finite_getLeadingPadding: "\<exists>x. getLeadingPadding node axis = Finite x"
  by (cases "padding (style node) CSSEdgeStart";
      cases "computedEdgeValue (padding (style node)) (leading axis) 0";
      simp add: getLeadingPadding_def zero_cfloat_def)

lemma finite_getTrailingPadding: "\<exists>x. getTrailingPadding node axis = Finite x"
  by (cases "padding (style node) CSSEdgeEnd";
      cases "computedEdgeValue (padding (style node)) (trailing axis) 0";
      simp add: getTrailingPadding_def zero_cfloat_def)

lemma finite_getLeadingBorder: "\<exists>x. getLeadingBorder node axis = Finite x"
  by (cases "border (style node) CSSEdgeStart";
      cases "computedEdgeValue (border (style node)) (leading axis) 0";
      simp add: getLeadingBorder_def zero_cfloat_def)

lemma finite_getTrailingBorder: "\<exists>x. getTrailingBorder node axis = Finite x"
  by (cases "border (style node) CSSEdgeEnd";
      cases "computedEdgeValue (border (style node)) (trailing axis) 0";
      simp add: getTrailingBorder_def zero_cfloat_def)

lemma finite_getPaddingAndBorderAxis: "\<exists>x. getPaddingAndBorderAxis node axis = Finite x"
  using finite_getLeadingPadding[of node axis] finite_getTrailingPadding[of node axis]
    finite_getLeadingBorder[of node axis] finite_getTrailingBorder[of node axis]
  by (auto simp add: getPaddingAndBorderAxis_def getLeadingPaddingAndBorder_def
      getTrailingPaddingAndBorder_def)

lemma fmaxf_ge: "Finite y \<le> fmaxf a (Finite y)"
  by (cases a) simp_all

text \<open>
  \<^verbatim>\<open>boundAxis\<close> never returns less than the padding and border of the axis, whatever the
  value it is given (undefined and negative values included).
\<close>

lemma boundAxis_ge_paddingAndBorder:
  "getPaddingAndBorderAxis node axis \<le> boundAxis node axis v"
  using finite_getPaddingAndBorderAxis[of node axis]
  by (auto simp add: boundAxis_def fmaxf_ge)

text \<open>
  Claim C8 does not hold of the code in its second part. The leaf \<open>paddedLeaf\<close> (a measure
  function, left padding 10) has padding and border 10 on the row axis.
  \<^verbatim>\<open>CSSNodeCalculateLayout\<close> with available width 0 and height 0 gives it the width 10; the
  same call again returns the initial \<^verbatim>\<open>cachedLayout\<close> entry, and the width of the node
  is 0, less than its padding and border.
\<close>

theorem CSSNodeCalculateLayout_width_below_padding:
  "do { (g1, n1) \<leftarrow> CSSNodeCalculateLayout 0 paddedLeaf 0 0 CSSDirectionLTR;
        (g2, n2) \<leftarrow> CSSNodeCalculateLayout g1 n1 0 0 CSSDirectionLTR;
        Some (CSSNodeLayoutGetWidth n1, CSSNodeLayoutGetWidth n2,
              getPaddingAndBorderAxis n2 CSSFlexDirectionRow) }
   = Some (Finite 10, Finite 0, Finite 10)"
  by (simp add: ev cong: let_weak_cong bind_weak_cong prod.case_cong_weak)

subsection \<open>The cache entry of a text node\<close>

text \<open>
  Claim C9 does not hold of the code. After \<^verbatim>\<open>CSSNodeCalculateLayout\<close> on the text leaf
  \<open>textLeaf\<close> with no available size, \<^verbatim>\<open>cachedLayout\<close> holds the computed height 50
  (modes \<^verbatim>\<open>Undefined\<close>). A call of \<^verbatim>\<open>layoutNodeInternal\<close> with the same width constraint
  and the height mode \<^verbatim>\<open>AtMost\<close> with 30 available is in the case of the claim:
  \<^verbatim>\<open>canUseCachedMeasurement\<close> returns true and sets \<^verbatim>\<open>computedHeight\<close> to 30 in its own copy
  of the entry. The entry of the node still holds 50 after the call, and the measured
  height of the node is 50.
\<close>

theorem canUseCachedMeasurement_entry_not_mutated:
  "do { (g1, n1) \<leftarrow> CSSNodeCalculateLayout 0 textLeaf CSSUndefined CSSUndefined CSSDirectionLTR;
        (v2, n2) \<leftarrow> layoutNodeInternal (Suc 0) g1 n1 CSSUndefined (Finite 30) CSSDirectionLTR
                        CSSMeasureModeUndefined CSSMeasureModeAtMost True;
        Some (computedHeight (cachedLayout (layout n1)),
              canUseCachedMeasurement (isTextNode n1) CSSUndefined (Finite 30)
                (getMarginAxis n1 CSSFlexDirectionRow) (getMarginAxis n1 CSSFlexDirectionColumn)
                CSSMeasureModeUndefined CSSMeasureModeAtMost (cachedLayout (layout n1))
                = (True, (cachedLayout (layout n1))\<lparr>computedHeight := Finite 30\<rparr>),
              v2,
              computedHeight (cachedLayout (layout n2)),
              measuredDimensions (layout n2) CSSDimensionHeight) }
   = Some (Finite 50, True, False, Finite 50, Finite 50)"
  by (simp add: ev cong: let_weak_cong bind_weak_cong prod.case_cong_weak)

end
